theory Spec2Isabelle
  imports Main "HOL-Library.Multiset"
begin

section \<open>JavaScript values and strings\<close>

text \<open>
  A JavaScript string is modelled as a HOL \<open>string\<close>: a list of 8-bit characters, read
  as the code units below 256. Every character that the validator's regular expression
  accepts is ASCII, and every literal of the program is ASCII.

  An error object is the pair of its optional \<open>code\<close> and its \<open>message\<close>.
\<close>

datatype js_error = JsError (error_code: "string option") (error_message: string)

text \<open>
  The argument of \<open>validateEmail\<close> is an arbitrary JavaScript value. The program
  observes of it: whether it is a string (and which), and what converting it to a
  string inside a template literal yields, which for a Symbol or for an object without
  a primitive value is a thrown TypeError.
\<close>

datatype js_value = JStr string | JOther "js_error + string"

fun template_string :: "js_value \<Rightarrow> js_error + string" where
  "template_string (JStr s) = Inr s"
| "template_string (JOther r) = r"

definition is_js_space :: "char \<Rightarrow> bool" where
  "is_js_space c = (of_char c \<in> {9, 10, 11, 12, 13, 32, 160 :: nat})"

definition js_trim :: "string \<Rightarrow> string" where
  "js_trim s = rev (dropWhile is_js_space (rev (dropWhile is_js_space s)))"

text \<open>\<open>s.split(sep)\<close> for a one-character separator: never an empty array.\<close>

fun js_split :: "char \<Rightarrow> string \<Rightarrow> string list" where
  "js_split sep [] = [[]]"
| "js_split sep (c # cs) =
     (if c = sep then [] # js_split sep cs
      else (case js_split sep cs of
              [] \<Rightarrow> [[c]]
            | p # ps \<Rightarrow> (c # p) # ps))"

text \<open>Array destructuring \<open>[a, b] = arr\<close>: a missing element is \<open>undefined\<close>, here \<open>None\<close>.\<close>

fun element :: "'a list \<Rightarrow> nat \<Rightarrow> 'a option" where
  "element [] i = None"
| "element (x # xs) 0 = Some x"
| "element (x # xs) (Suc i) = element xs i"

definition startsWith :: "string \<Rightarrow> string \<Rightarrow> bool" where
  "startsWith s p = (take (length p) s = p)"

definition endsWith :: "string \<Rightarrow> string \<Rightarrow> bool" where
  "endsWith s p = (length p \<le> length s \<and> drop (length s - length p) s = p)"

fun js_includes :: "string \<Rightarrow> string \<Rightarrow> bool" where
  "js_includes [] p = (p = [])"
| "js_includes (c # cs) p = (startsWith (c # cs) p \<or> js_includes cs p)"

definition js_toLowerCase :: "string \<Rightarrow> string" where
  "js_toLowerCase s =
     map (\<lambda>c. let n = of_char c :: nat in
               if (65 \<le> n \<and> n \<le> 90) \<or> (192 \<le> n \<and> n \<le> 222 \<and> n \<noteq> 215)
               then char_of (n + 32) else c) s"

text \<open>Decimal rendering of a non-negative integer, as a template literal prints it.\<close>

definition digit_char :: "nat \<Rightarrow> char" where
  "digit_char d = char_of (48 + d)"

function number_string :: "nat \<Rightarrow> string" where
  "number_string n =
     (if n < 10 then [digit_char n] else number_string (n div 10) @ [digit_char (n mod 10)])"
  by pat_completeness auto
termination
  by (relation "measure id") auto

section \<open>Check results and reports\<close>

record mx_record =
  exchange :: string
  priority :: nat

text \<open>
  A check result is an object with \<open>passed\<close> and \<open>message\<close>; the keys \<open>records\<close> and
  \<open>response\<close> are present on some results only.
\<close>

record check_result =
  passed :: bool
  message :: string
  records :: "mx_record list option"
  response :: "string option"

definition plain_result :: "bool \<Rightarrow> string \<Rightarrow> check_result" where
  "plain_result p m = \<lparr>passed = p, message = m, records = None, response = None\<rparr>"

section \<open>The validator object\<close>

record validator =
  timeout :: nat
  retryAttempts :: nat
  fromEmail :: string
  verbose :: bool
  disposableDomains :: "string set"
  roleBasedPrefixes :: "string set"

text \<open>
  The constructor's options: an absent key is \<open>None\<close>. \<open>a || b\<close> takes \<open>b\<close> when \<open>a\<close> is
  falsy: \<open>undefined\<close>, \<open>0\<close>, the empty string or \<open>false\<close>. Times and counts are
  non-negative integers.
\<close>

record options =
  opt_timeout :: "nat option"
  opt_retryAttempts :: "nat option"
  opt_fromEmail :: "string option"
  opt_verbose :: "bool option"

definition or_default_nat :: "nat option \<Rightarrow> nat \<Rightarrow> nat" where
  "or_default_nat a b = (case a of None \<Rightarrow> b | Some n \<Rightarrow> if n = 0 then b else n)"

definition or_default_str :: "string option \<Rightarrow> string \<Rightarrow> string" where
  "or_default_str a b = (case a of None \<Rightarrow> b | Some s \<Rightarrow> if s = [] then b else s)"

definition or_default_bool :: "bool option \<Rightarrow> bool \<Rightarrow> bool" where
  "or_default_bool a b = (case a of None \<Rightarrow> b | Some x \<Rightarrow> if x then x else b)"

definition EmailValidator :: "options \<Rightarrow> validator" where
  "EmailValidator opts =
     \<lparr>timeout = or_default_nat (opt_timeout opts) 2500,
      retryAttempts = or_default_nat (opt_retryAttempts opts) 1,
      fromEmail = or_default_str (opt_fromEmail opts) ''test@example.com'',
      verbose = or_default_bool (opt_verbose opts) False,
      disposableDomains = set
        [''10minutemail.com'', ''20minutemail.com'', ''guerrillamail.com'',
         ''mailinator.com'', ''tempmail.org'', ''temp-mail.org'', ''yopmail.com'',
         ''throwaway.email'', ''maildrop.cc'', ''trashmail.com'', ''dispostable.com'',
         ''mailnesia.com'', ''spamgourmet.com'', ''mohmal.com'', ''sharklasers.com'',
         ''grr.la'', ''guerrillamailblock.com'', ''pokemail.net'', ''spam4.me'',
         ''tempail.com'', ''tempemail.com'', ''tempinbox.com'', ''emailondeck.com'',
         ''getnada.com'', ''harakirimail.com'', ''mytrashmail.com'', ''mailcatch.com''],
      roleBasedPrefixes = set
        [''admin'', ''administrator'', ''support'', ''help'', ''info'', ''contact'',
         ''sales'', ''marketing'', ''billing'', ''accounts'', ''no-reply'', ''noreply'',
         ''webmaster'', ''postmaster'', ''hostmaster'', ''abuse'', ''security'',
         ''privacy'', ''legal'', ''compliance'', ''hr'', ''recruiting'', ''careers'']\<rparr>"

section \<open>Syntax validation\<close>

text \<open>
  The recogniser of \<open>emailRegex\<close>. Neither character class of the expression contains
  \<open>@\<close>, so a match splits the string at its only \<open>@\<close>: one or more local-part characters
  before it and, after it, labels joined by periods. A label is one alphanumeric
  character, optionally followed by up to 61 alphanumerics or hyphens and one more
  alphanumeric: 1 to 63 characters, alphanumeric at both ends, hyphens only inside.
\<close>

definition is_alnum :: "char \<Rightarrow> bool" where
  "is_alnum c = (let n = of_char c :: nat in
     (97 \<le> n \<and> n \<le> 122) \<or> (65 \<le> n \<and> n \<le> 90) \<or> (48 \<le> n \<and> n \<le> 57))"

definition is_local_char :: "char \<Rightarrow> bool" where
  "is_local_char c =
     (is_alnum c \<or> c \<in> set ''.!#$%&*+/=?^_{|}~-'' \<or> c = CHR 0x27 \<or> c = CHR 0x60)"

definition is_label :: "string \<Rightarrow> bool" where
  "is_label l =
     (1 \<le> length l \<and> length l \<le> 63 \<and> is_alnum (hd l) \<and> is_alnum (last l) \<and>
      list_all (\<lambda>c. is_alnum c \<or> c = CHR ''-'') l)"

definition emailRegex_test :: "string \<Rightarrow> bool" where
  "emailRegex_test s =
     (case js_split CHR ''@'' s of
        [l, d] \<Rightarrow> l \<noteq> [] \<and> list_all is_local_char l \<and> list_all is_label (js_split CHR ''.'' d)
      | _ \<Rightarrow> False)"

definition validateSyntax :: "js_value \<Rightarrow> check_result" where
  "validateSyntax email =
     (case email of
        JOther _ \<Rightarrow> plain_result False ''Email is required and must be a string''
      | JStr raw \<Rightarrow>
          if raw = [] then plain_result False ''Email is required and must be a string''
          else
            let trimmed = js_trim raw;
                atSymbols = count_list trimmed CHR ''@''
            in
            if atSymbols \<noteq> 1 then plain_result False ''Email must contain exactly one @ symbol''
            else
              let parts = js_split CHR ''@'' trimmed;
                  localPart = element parts 0;
                  domainPart = element parts 1
              in
              (case localPart of
                 None \<Rightarrow> plain_result False ''Local part must be 1-64 characters''
               | Some lp \<Rightarrow>
                   if lp = [] \<or> length lp = 0 \<or> 64 < length lp
                   then plain_result False ''Local part must be 1-64 characters''
                   else
                     (case domainPart of
                        None \<Rightarrow> plain_result False ''Domain part must be 1-253 characters''
                      | Some dm \<Rightarrow>
                          if dm = [] \<or> length dm = 0 \<or> 253 < length dm
                          then plain_result False ''Domain part must be 1-253 characters''
                          else if \<not> emailRegex_test trimmed
                          then plain_result False ''Email format is invalid according to RFC 5322''
                          else if startsWith lp ''.'' \<or> endsWith lp ''.''
                          then plain_result False ''Local part cannot start or end with a period''
                          else if js_includes lp ''..''
                          then plain_result False ''Local part cannot contain consecutive periods''
                          else if startsWith dm ''-'' \<or> endsWith dm ''-''
                          then plain_result False ''Domain cannot start or end with a hyphen''
                          else plain_result True ''Email syntax is valid'')))"

definition parseEmail :: "string \<Rightarrow> string option \<times> string option" where
  "parseEmail email = (let parts = js_split CHR ''@'' email in (element parts 0, element parts 1))"

section \<open>Reputation heuristics\<close>

text \<open>
  \<open>domain.toLowerCase()\<close> on \<open>undefined\<close> throws a TypeError.
\<close>

definition undefined_property :: "string \<Rightarrow> js_error" where
  "undefined_property name =
     JsError None (''Cannot read properties of undefined (reading '' @ [CHR 0x27] @ name @ [CHR 0x27] @ '')'')"

definition checkDisposable :: "validator \<Rightarrow> string option \<Rightarrow> js_error + check_result" where
  "checkDisposable v dm =
     (case dm of
        None \<Rightarrow> Inl (undefined_property ''toLowerCase'')
      | Some d \<Rightarrow>
          let isDisposable = (js_toLowerCase d \<in> disposableDomains v) in
          Inr (plain_result (\<not> isDisposable)
                 (if isDisposable then ''Domain is a known disposable email provider''
                  else ''Domain is not a disposable email provider'')))"

definition checkRoleBased :: "validator \<Rightarrow> string option \<Rightarrow> js_error + check_result" where
  "checkRoleBased v localPart =
     (case localPart of
        None \<Rightarrow> Inl (undefined_property ''toLowerCase'')
      | Some l \<Rightarrow>
          let isRoleBased = (js_toLowerCase l \<in> roleBasedPrefixes v) in
          Inr (plain_result (\<not> isRoleBased)
                 (if isRoleBased then ''Email appears to be role-based (non-personal)''
                  else ''Email appears to be personal (not role-based)'')))"

section \<open>Promises, timers and the environment\<close>

text \<open>
  Time is virtual, in milliseconds; synchronous code takes none. A promise is described
  by when it settles, counted from its creation, and how: fulfilled with a value
  (\<open>Inr\<close>) or rejected with an error (\<open>Inl\<close>); or it never settles.
\<close>

datatype 'a promise = Settles nat "js_error + 'a" | Never

text \<open>
  What a socket delivers to its listeners: the \<open>connect\<close> callback and the \<open>data\<close>,
  \<open>timeout\<close>, \<open>error\<close> and \<open>close\<close> events. A script lists the events of one connection,
  each with the delay since the one before.
\<close>

datatype sock_event = Connected | Data string | SockTimeout | SockError js_error | Closed

record env =
  dns_lookup :: "string option \<Rightarrow> unit promise"
  dns_resolveMx :: "string option \<Rightarrow> mx_record list option promise"
  smtp_server :: "nat \<Rightarrow> string \<Rightarrow> (nat \<times> sock_event) list"
  os_hostname :: string
  date_iso :: string

text \<open>
  \<open>dns_lookup\<close> and \<open>dns_resolveMx\<close> are the resolver's answers for a host name (or for
  \<open>undefined\<close>). \<open>smtp_server n host\<close> is the script of the \<open>n\<close>-th connection that one
  validation opens, made to \<open>host\<close> on port 25.

  \<open>Promise.race\<close> settles as the first of its arguments to settle. On a tie the
  earlier argument wins: its timers were started first.
\<close>

definition race :: "'a promise \<Rightarrow> 'a promise \<Rightarrow> 'a promise" where
  "race p q =
     (case p of
        Never \<Rightarrow> q
      | Settles a x \<Rightarrow>
          (case q of
             Never \<Rightarrow> p
           | Settles b y \<Rightarrow> if a \<le> b then p else q))"

definition withTimeout :: "check_result promise \<Rightarrow> nat \<Rightarrow> string \<Rightarrow> check_result promise" where
  "withTimeout p timeoutMs timeoutMessage =
     (let timeoutPromise = Settles timeoutMs (Inl (JsError None timeoutMessage)) in
      case race p timeoutPromise of
        Never \<Rightarrow> Never
      | Settles t (Inr v) \<Rightarrow> Settles t (Inr v)
      | Settles t (Inl error) \<Rightarrow>
          if error_message error = timeoutMessage
          then Settles t (Inr \<lparr>passed = False, message = timeoutMessage,
                               records = Some [], response = None\<rparr>)
          else Settles t (Inl error))"

text \<open>\<open>error.code || error.message\<close>\<close>

definition code_or_message :: "js_error \<Rightarrow> string" where
  "code_or_message error =
     (case error_code error of
        None \<Rightarrow> error_message error
      | Some c \<Rightarrow> if c = [] then error_message error else c)"

section \<open>Domain and MX resolution\<close>

definition validateDomain :: "env \<Rightarrow> string option \<Rightarrow> check_result promise" where
  "validateDomain e dm =
     (case dns_lookup e dm of
        Never \<Rightarrow> Never
      | Settles t (Inr _) \<Rightarrow> Settles t (Inr (plain_result True ''Domain exists and is resolvable''))
      | Settles t (Inl error) \<Rightarrow>
          Settles t (Inr (plain_result False (''Domain lookup failed: '' @ code_or_message error))))"

text \<open>
  \<open>Array.prototype.sort\<close> with the comparator \<open>a.priority - b.priority\<close> is a stable sort
  by priority, as \<open>sort_key\<close> is.
\<close>

definition validateMX :: "env \<Rightarrow> string option \<Rightarrow> check_result promise" where
  "validateMX e dm =
     (case dns_resolveMx e dm of
        Never \<Rightarrow> Never
      | Settles t (Inr mxRecords) \<Rightarrow>
          (case mxRecords of
             None \<Rightarrow> Settles t (Inr \<lparr>passed = False, message = ''No MX records found for domain'',
                                      records = Some [], response = None\<rparr>)
           | Some recs \<Rightarrow>
               if length recs = 0
               then Settles t (Inr \<lparr>passed = False, message = ''No MX records found for domain'',
                                    records = Some [], response = None\<rparr>)
               else
                 let sortedRecords = sort_key priority recs in
                 Settles t (Inr \<lparr>passed = True,
                                 message = ''Found '' @ number_string (length sortedRecords) @ '' MX record(s)'',
                                 records = Some sortedRecords, response = None\<rparr>))
      | Settles t (Inl error) \<Rightarrow>
          Settles t (Inr \<lparr>passed = False,
                          message = ''MX record lookup failed: '' @ code_or_message error,
                          records = Some [], response = None\<rparr>))"

section \<open>The SMTP probe\<close>

text \<open>
  \<open>parseInt(s)\<close> without a radix: leading white space is skipped, then an optional sign,
  then an optional \<open>0x\<close> prefix that selects radix 16; the longest run of digits of the
  radix is the value, and no digit at all gives \<open>NaN\<close>, here \<open>None\<close>.
\<close>

definition digit_value :: "char \<Rightarrow> nat option" where
  "digit_value c = (let n = of_char c :: nat in
     if 48 \<le> n \<and> n \<le> 57 then Some (n - 48)
     else if 97 \<le> n \<and> n \<le> 122 then Some (n - 87)
     else if 65 \<le> n \<and> n \<le> 90 then Some (n - 55)
     else None)"

definition is_digit_of :: "nat \<Rightarrow> char \<Rightarrow> bool" where
  "is_digit_of radix c = (case digit_value c of None \<Rightarrow> False | Some d \<Rightarrow> d < radix)"

definition digits_number :: "nat \<Rightarrow> string \<Rightarrow> nat" where
  "digits_number radix ds = foldl (\<lambda>acc c. acc * radix + (case digit_value c of None \<Rightarrow> 0 | Some d \<Rightarrow> d)) 0 ds"

definition js_parseInt :: "string \<Rightarrow> int option" where
  "js_parseInt s =
     (let s1 = dropWhile is_js_space s;
          negative = startsWith s1 ''-'';
          s2 = (if startsWith s1 ''-'' \<or> startsWith s1 ''+'' then drop 1 s1 else s1);
          hex = (startsWith s2 ''0x'' \<or> startsWith s2 ''0X'');
          radix = (if hex then 16 else 10);
          s3 = (if hex then drop 2 s2 else s2);
          ds = takeWhile (is_digit_of radix) s3
      in if ds = [] then None
         else Some (if negative then - int (digits_number radix ds) else int (digits_number radix ds)))"

text \<open>
  The socket. \<open>attempted\<close> lists every \<open>socket.write\<close> call, \<open>wire\<close> the data that was
  handed to the connection and so can reach the server. Node's stream rejects a write
  to a destroyed socket without throwing: the data is dropped.
\<close>

record socket =
  destroyed :: bool
  attempted :: "string list"
  wire :: "string list"

definition socket_destroy :: "socket \<Rightarrow> socket" where
  "socket_destroy s = s\<lparr>destroyed := True\<rparr>"

definition socket_write :: "string \<Rightarrow> socket \<Rightarrow> socket" where
  "socket_write d s =
     (if destroyed s then s\<lparr>attempted := attempted s @ [d]\<rparr>
      else s\<lparr>attempted := attempted s @ [d], wire := wire s @ [d]\<rparr>)"

text \<open>
  The state of one \<open>performSMTPCheck\<close> call: the socket, whether the watchdog timer is
  still pending, the variables \<open>step\<close> and \<open>response\<close>, and how the returned promise
  has settled, if it has. \<open>resolve\<close> and \<open>reject\<close> act on a pending promise only.
\<close>

record session =
  sock :: socket
  watchdog_armed :: bool
  step :: nat
  response_acc :: string
  settled :: "(js_error + check_result) option"

definition new_session :: session where
  "new_session = \<lparr>sock = \<lparr>destroyed = False, attempted = [], wire = []\<rparr>,
                   watchdog_armed = True, step = 0, response_acc = [], settled = None\<rparr>"

definition resolve :: "check_result \<Rightarrow> session \<Rightarrow> session" where
  "resolve r st = (if settled st = None then st\<lparr>settled := Some (Inr r)\<rparr> else st)"

definition reject :: "js_error \<Rightarrow> session \<Rightarrow> session" where
  "reject error st = (if settled st = None then st\<lparr>settled := Some (Inl error)\<rparr> else st)"

definition cleanup :: "session \<Rightarrow> session" where
  "cleanup st =
     (let st1 = st\<lparr>watchdog_armed := False\<rparr> in
      if \<not> destroyed (sock st1) then st1\<lparr>sock := socket_destroy (sock st1)\<rparr> else st1)"

definition session_write :: "string \<Rightarrow> session \<Rightarrow> session" where
  "session_write d st = st\<lparr>sock := socket_write d (sock st)\<rparr>"

definition crlf :: string where
  "crlf = [CHR 0x0D, CHR 0x0A]"

definition smtp_result :: "bool \<Rightarrow> string \<Rightarrow> string \<Rightarrow> check_result" where
  "smtp_result p m r = \<lparr>passed = p, message = m, records = None, response = Some r\<rparr>"

text \<open>
  The \<open>data\<close> listener. The \<open>switch\<close> is inside a \<open>try\<close>; what can throw there is the
  conversion of \<open>email\<close> in the template literal of the \<open>RCPT TO\<close> command.
\<close>

definition on_data :: "validator \<Rightarrow> env \<Rightarrow> js_value \<Rightarrow> string \<Rightarrow> session \<Rightarrow> session" where
  "on_data v e email data st0 =
     (let msg = js_trim data;
          st = st0\<lparr>response_acc := response_acc st0 @ msg @ [CHR 0x0A]\<rparr>;
          code = js_parseInt (take 3 msg);
          switch =
            (if step st = 0 then
               (if code = Some 220
                then Inr ((session_write (''HELO '' @ os_hostname e @ crlf) st)\<lparr>step := Suc (step st)\<rparr>)
                else Inr (resolve (smtp_result False (''Connection rejected: '' @ msg)
                                     (js_trim (response_acc st))) (cleanup st)))
             else if step st = 1 then
               (if code = Some 250
                then Inr ((session_write (''MAIL FROM:<'' @ fromEmail v @ ''>'' @ crlf) st)\<lparr>step := Suc (step st)\<rparr>)
                else Inr (resolve (smtp_result False (''HELO rejected: '' @ msg)
                                     (js_trim (response_acc st))) (cleanup st)))
             else if step st = 2 then
               (if code = Some 250
                then (case template_string email of
                        Inl error \<Rightarrow> Inl error
                      | Inr to \<Rightarrow>
                          Inr ((session_write (''RCPT TO:<'' @ to @ ''>'' @ crlf) st)\<lparr>step := Suc (step st)\<rparr>))
                else Inr (resolve (smtp_result False (''MAIL FROM rejected: '' @ msg)
                                     (js_trim (response_acc st))) (cleanup st)))
             else if step st = 3 then
               (let st1 = cleanup st;
                    st2 = session_write (''QUIT'' @ crlf) st1
                in
                if code = Some 250
                then Inr (resolve (smtp_result True ''Email address accepted by SMTP server''
                                     (js_trim (response_acc st2))) st2)
                else if code = Some 550 \<or> code = Some 551 \<or> code = Some 553
                then Inr (resolve (smtp_result False (''Email address rejected: '' @ msg)
                                     (js_trim (response_acc st2))) st2)
                else if code = Some 450 \<or> code = Some 451 \<or> code = Some 452
                then Inr (resolve (smtp_result False (''Temporary failure (possible greylisting): '' @ msg)
                                     (js_trim (response_acc st2))) st2)
                else Inr (resolve (smtp_result False (''Unexpected response: '' @ msg)
                                     (js_trim (response_acc st2))) st2))
             else Inr st)
      in case switch of
           Inr st' \<Rightarrow> st'
         | Inl error \<Rightarrow>
             resolve (smtp_result False (error_message error) (js_trim (response_acc st))) (cleanup st))"

definition deliver :: "validator \<Rightarrow> env \<Rightarrow> js_value \<Rightarrow> sock_event \<Rightarrow> session \<Rightarrow> session" where
  "deliver v e email ev st =
     (case ev of
        Connected \<Rightarrow> st
      | Data d \<Rightarrow> on_data v e email d st
      | SockTimeout \<Rightarrow> reject (JsError None ''SMTP socket timeout'') (cleanup st)
      | SockError error \<Rightarrow> reject error (cleanup st)
      | Closed \<Rightarrow> cleanup st)"

definition watchdog_fires :: "session \<Rightarrow> session" where
  "watchdog_fires st =
     reject (JsError None ''SMTP connection timeout'')
       (st\<lparr>watchdog_armed := False, sock := socket_destroy (sock st)\<rparr>)"

text \<open>
  One session against a script. The watchdog fires at \<open>this.timeout\<close> unless \<open>cleanup\<close>
  has cleared it, before an event that is due at the same instant. A destroyed socket
  emits nothing more to the listeners, so a session that was cleaned up before it
  settled stays pending for ever. The run ends when the promise settles: every path
  that settles it has destroyed the socket before.
\<close>

fun run_session ::
  "validator \<Rightarrow> env \<Rightarrow> js_value \<Rightarrow> nat \<Rightarrow> (nat \<times> sock_event) list \<Rightarrow> session
     \<Rightarrow> check_result promise \<times> session" where
  "run_session v e email now [] st =
     (if watchdog_armed st
      then (Settles (timeout v) (Inl (JsError None ''SMTP connection timeout'')), watchdog_fires st)
      else (Never, st))"
| "run_session v e email now ((delay, ev) # rest) st =
     (let t = now + delay in
      if watchdog_armed st \<and> timeout v \<le> t
      then (Settles (timeout v) (Inl (JsError None ''SMTP connection timeout'')), watchdog_fires st)
      else if destroyed (sock st) then (Never, st)
      else
        let st' = deliver v e email ev st in
        (case settled st' of
           Some r \<Rightarrow> (Settles t r, st')
         | None \<Rightarrow> run_session v e email t rest st'))"

definition performSMTPCheck ::
  "validator \<Rightarrow> env \<Rightarrow> js_value \<Rightarrow> string \<Rightarrow> nat \<Rightarrow> check_result promise" where
  "performSMTPCheck v e email mxServer n =
     fst (run_session v e email 0 (smtp_server e n mxServer) new_session)"

section \<open>Retries over the mail exchangers\<close>

text \<open>
  What \<open>validateSMTP\<close> does to the outside: it opens connections (\<open>Probe attempt host\<close>)
  and sleeps. Its state is the virtual time since it was called, the number of
  connections opened so far and the list of these actions.
\<close>

datatype net_event = Probe nat string | Sleep nat

record smtp_state =
  clock :: nat
  connections :: nat
  net_trace :: "net_event list"

datatype loop_exit = Returned check_result | Completed | Hangs

definition not_iterable :: js_error where
  "not_iterable = JsError None ''mxRecords is not iterable''"

text \<open>
  The inner \<open>for (const mx of mxRecords)\<close> loop: a probe that passes is returned, one
  that fails or rejects lets the loop go on, one that never settles stops everything.
\<close>

fun try_hosts ::
  "validator \<Rightarrow> env \<Rightarrow> js_value \<Rightarrow> nat \<Rightarrow> mx_record list \<Rightarrow> smtp_state
     \<Rightarrow> smtp_state \<times> loop_exit" where
  "try_hosts v e email attempt [] st = (st, Completed)"
| "try_hosts v e email attempt (mx # rest) st =
     (let st1 = st\<lparr>connections := Suc (connections st),
                    net_trace := net_trace st @ [Probe attempt (exchange mx)]\<rparr>
      in case performSMTPCheck v e email (exchange mx) (connections st) of
           Never \<Rightarrow> (st1, Hangs)
         | Settles d (Inr result) \<Rightarrow>
             if passed result then (st1\<lparr>clock := clock st1 + d\<rparr>, Returned result)
             else try_hosts v e email attempt rest (st1\<lparr>clock := clock st1 + d\<rparr>)
         | Settles d (Inl error) \<Rightarrow>
             try_hosts v e email attempt rest (st1\<lparr>clock := clock st1 + d\<rparr>))"

definition sleep :: "nat \<Rightarrow> smtp_state \<Rightarrow> smtp_state" where
  "sleep ms st = st\<lparr>clock := clock st + ms, net_trace := net_trace st @ [Sleep ms]\<rparr>"

definition all_failed :: check_result where
  "all_failed = \<lparr>passed = False,
                 message = ''SMTP validation failed for all MX servers after retries'',
                 records = None, response = Some []\<rparr>"

function validateSMTP_loop ::
  "validator \<Rightarrow> env \<Rightarrow> js_value \<Rightarrow> mx_record list option \<Rightarrow> nat \<Rightarrow> smtp_state
     \<Rightarrow> smtp_state \<times> check_result promise" where
  "validateSMTP_loop v e email mxRecords attempt st =
     (if attempt < retryAttempts v then
        (case mxRecords of
           None \<Rightarrow> (st, Settles (clock st) (Inl not_iterable))
         | Some recs \<Rightarrow>
             (case try_hosts v e email attempt recs st of
                (st1, Returned result) \<Rightarrow> (st1, Settles (clock st1) (Inr result))
              | (st1, Hangs) \<Rightarrow> (st1, Never)
              | (st1, Completed) \<Rightarrow>
                  validateSMTP_loop v e email mxRecords (Suc attempt)
                    (if int attempt < int (retryAttempts v) - 1 then sleep 1000 st1 else st1)))
      else (st, Settles (clock st) (Inr all_failed)))"
  by pat_completeness auto
termination
  by (relation "measure (\<lambda>(v, e, email, mxRecords, attempt, st). retryAttempts v - attempt)") auto

definition validateSMTP ::
  "validator \<Rightarrow> env \<Rightarrow> js_value \<Rightarrow> mx_record list option \<Rightarrow> smtp_state \<times> check_result promise" where
  "validateSMTP v e email mxRecords =
     validateSMTP_loop v e email mxRecords 0 \<lparr>clock = 0, connections = 0, net_trace = []\<rparr>"

section \<open>The validation pipeline\<close>

record check_map =
  chk_syntax :: check_result
  chk_domain :: check_result
  chk_mx :: check_result
  chk_smtp :: check_result
  chk_disposable :: check_result
  chk_roleBased :: check_result

record report =
  rep_email :: js_value
  isValid :: bool
  checks :: check_map
  executionTime :: nat
  timestamp :: string

text \<open>The methods that \<open>validateEmail\<close> calls, with their arguments, in call order.\<close>

datatype call =
    ValidateSyntax js_value
  | ValidateDomain "string option"
  | ValidateMX "string option"
  | ValidateSMTP js_value "mx_record list option"
  | CheckDisposable "string option"
  | CheckRoleBased "string option"

definition new_report :: "env \<Rightarrow> js_value \<Rightarrow> report" where
  "new_report e email =
     \<lparr>rep_email = email,
      isValid = False,
      checks = \<lparr>chk_syntax = \<lparr>passed = False, message = [], records = None, response = None\<rparr>,
                chk_domain = \<lparr>passed = False, message = [], records = None, response = None\<rparr>,
                chk_mx = \<lparr>passed = False, message = [], records = Some [], response = None\<rparr>,
                chk_smtp = \<lparr>passed = False, message = [], records = None, response = Some []\<rparr>,
                chk_disposable = \<lparr>passed = True, message = [], records = None, response = None\<rparr>,
                chk_roleBased = \<lparr>passed = True, message = [], records = None, response = None\<rparr>\<rparr>,
      executionTime = 0,
      timestamp = date_iso e\<rparr>"

text \<open>The \<open>catch\<close> block of \<open>validateEmail\<close>, run at time \<open>now\<close> on the report as it is then.\<close>

definition catch_block :: "report \<Rightarrow> nat \<Rightarrow> js_error \<Rightarrow> report" where
  "catch_block result now error =
     result\<lparr>checks := (checks result)\<lparr>chk_syntax :=
                 (chk_syntax (checks result))\<lparr>message := ''Validation error: '' @ error_message error\<rparr>\<rparr>,
            executionTime := now\<rparr>"

text \<open>\<open>email.split\<close> exists on strings only.\<close>

definition parseEmail_value :: "js_value \<Rightarrow> js_error + (string option \<times> string option)" where
  "parseEmail_value email =
     (case email of
        JStr raw \<Rightarrow> Inr (parseEmail raw)
      | JOther _ \<Rightarrow> Inl (JsError None ''email.split is not a function''))"

text \<open>
  \<open>validateEmail\<close>: the list of method calls it made and the promise it returns; the
  promise's time is what the report carries as \<open>executionTime\<close>. Logging prints to the
  console only and is left out, but for the conversion of \<open>email\<close> to a string in the
  first log message, which is evaluated whether or not \<open>verbose\<close> is set and can throw.
\<close>

definition validateEmail :: "validator \<Rightarrow> env \<Rightarrow> js_value \<Rightarrow> call list \<times> report promise" where
  "validateEmail v e email =
     (let result = new_report e email in
      case template_string email of
        Inl error \<Rightarrow> ([], Settles 0 (Inr (catch_block result 0 error)))
      | Inr _ \<Rightarrow>
          let syntaxResult = validateSyntax email;
              result1 = result\<lparr>checks := (checks result)\<lparr>chk_syntax := syntaxResult\<rparr>\<rparr>;
              calls1 = [ValidateSyntax email]
          in
          if \<not> passed syntaxResult then (calls1, Settles 0 (Inr (result1\<lparr>executionTime := 0\<rparr>)))
          else
            (case parseEmail_value email of
               Inl error \<Rightarrow> (calls1, Settles 0 (Inr (catch_block result1 0 error)))
             | Inr (localPart, domainPart) \<Rightarrow>
                 let calls2 = calls1 @ [ValidateDomain domainPart] in
                 (case withTimeout (validateDomain e domainPart) 2000 ''Domain lookup timeout'' of
                    Never \<Rightarrow> (calls2, Never)
                  | Settles t1 (Inl error) \<Rightarrow>
                      (calls2, Settles t1 (Inr (catch_block result1 t1 error)))
                  | Settles t1 (Inr domainResult) \<Rightarrow>
                      let result2 = result1\<lparr>checks := (checks result1)\<lparr>chk_domain := domainResult\<rparr>\<rparr> in
                      if \<not> passed domainResult
                      then (calls2, Settles t1 (Inr (result2\<lparr>executionTime := t1\<rparr>)))
                      else
                        let calls3 = calls2 @ [ValidateMX domainPart] in
                        (case withTimeout (validateMX e domainPart) 2000 ''MX record lookup timeout'' of
                           Never \<Rightarrow> (calls3, Never)
                         | Settles t2 (Inl error) \<Rightarrow>
                             (calls3, Settles (t1 + t2) (Inr (catch_block result2 (t1 + t2) error)))
                         | Settles t2 (Inr mxResult) \<Rightarrow>
                             let result3 = result2\<lparr>checks := (checks result2)\<lparr>chk_mx := mxResult\<rparr>\<rparr> in
                             if \<not> passed mxResult
                             then (calls3, Settles (t1 + t2) (Inr (result3\<lparr>executionTime := t1 + t2\<rparr>)))
                             else
                               let calls4 = calls3 @ [ValidateSMTP email (records mxResult)] in
                               (case withTimeout (snd (validateSMTP v e email (records mxResult)))
                                       (timeout v) ''SMTP validation timeout'' of
                                  Never \<Rightarrow> (calls4, Never)
                                | Settles t3 (Inl error) \<Rightarrow>
                                    (calls4, Settles (t1 + t2 + t3)
                                               (Inr (catch_block result3 (t1 + t2 + t3) error)))
                                | Settles t3 (Inr smtpResult) \<Rightarrow>
                                    let now = t1 + t2 + t3;
                                        result4 = result3\<lparr>checks := (checks result3)\<lparr>chk_smtp := smtpResult\<rparr>\<rparr>;
                                        calls5 = calls4 @ [CheckDisposable domainPart]
                                    in
                                    (case checkDisposable v domainPart of
                                       Inl error \<Rightarrow> (calls5, Settles now (Inr (catch_block result4 now error)))
                                     | Inr disposableResult \<Rightarrow>
                                         let result5 = result4\<lparr>checks :=
                                                         (checks result4)\<lparr>chk_disposable := disposableResult\<rparr>\<rparr>;
                                             calls6 = calls5 @ [CheckRoleBased localPart]
                                         in
                                         (case checkRoleBased v localPart of
                                            Inl error \<Rightarrow>
                                              (calls6, Settles now (Inr (catch_block result5 now error)))
                                          | Inr roleBasedResult \<Rightarrow>
                                              let result6 = result5\<lparr>checks :=
                                                              (checks result5)\<lparr>chk_roleBased := roleBasedResult\<rparr>\<rparr>;
                                                  result7 = result6\<lparr>isValid :=
                                                              passed (chk_syntax (checks result6)) \<and>
                                                              passed (chk_domain (checks result6)) \<and>
                                                              passed (chk_mx (checks result6)) \<and>
                                                              passed (chk_smtp (checks result6))\<rparr>
                                              in (calls6, Settles now (Inr (result7\<lparr>executionTime := now\<rparr>))))))))))"

section \<open>Example inputs\<close>

text \<open>
  A validator built with two retry rounds, and an environment in which every name
  resolves, the domain has two mail exchangers listed out of order, and every server
  greets, accepts \<open>HELO\<close> and \<open>MAIL FROM\<close>, and answers \<open>RCPT TO\<close> with the reply that
  the argument of \<open>example_env\<close> gives for the connection.
\<close>

definition example_validator :: validator where
  "example_validator =
     EmailValidator \<lparr>opt_timeout = None, opt_retryAttempts = Some 2,
                     opt_fromEmail = None, opt_verbose = None\<rparr>"

definition example_records :: "mx_record list" where
  "example_records = [\<lparr>exchange = ''mx2.example.org'', priority = 20\<rparr>,
                      \<lparr>exchange = ''mx1.example.org'', priority = 10\<rparr>]"

definition example_script :: "string \<Rightarrow> (nat \<times> sock_event) list" where
  "example_script rcpt_reply =
     [(5, Connected), (10, Data ''220 ready''), (10, Data ''250 hello''),
      (10, Data ''250 sender ok''), (10, Data rcpt_reply)]"

definition example_env :: "(nat \<Rightarrow> string) \<Rightarrow> env" where
  "example_env rcpt_reply =
     \<lparr>dns_lookup = (\<lambda>_. Settles 10 (Inr ())),
      dns_resolveMx = (\<lambda>_. Settles 10 (Inr (Some example_records))),
      smtp_server = (\<lambda>n host. example_script (rcpt_reply n)),
      os_hostname = ''client.example.net'',
      date_iso = ''2024-01-01T00:00:00.000Z''\<rparr>"

definition rcpt_sent :: session where
  "rcpt_sent = new_session\<lparr>step := 3, response_acc := ''220 ready\<newline>250 hello\<newline>250 sender ok\<newline>''\<rparr>"

definition symbol_error :: js_error where
  "symbol_error = JsError None ''Cannot convert a Symbol value to a string''"

definition accepted_calls :: "call list" where
  "accepted_calls =
     [ValidateSyntax (JStr ''test@mailinator.com''),
      ValidateDomain (Some ''mailinator.com''),
      ValidateMX (Some ''mailinator.com''),
      ValidateSMTP (JStr ''test@mailinator.com'')
        (Some [\<lparr>exchange = ''mx1.example.org'', priority = 10\<rparr>,
               \<lparr>exchange = ''mx2.example.org'', priority = 20\<rparr>]),
      CheckDisposable (Some ''mailinator.com''),
      CheckRoleBased (Some ''test'')]"

definition accepted_report :: report where
  "accepted_report =
     \<lparr>rep_email = JStr ''test@mailinator.com'', isValid = True,
      checks =
        \<lparr>chk_syntax = \<lparr>passed = True, message = ''Email syntax is valid'',
                        records = None, response = None\<rparr>,
         chk_domain = \<lparr>passed = True, message = ''Domain exists and is resolvable'',
                        records = None, response = None\<rparr>,
         chk_mx = \<lparr>passed = True, message = ''Found 2 MX record(s)'',
                    records = Some [\<lparr>exchange = ''mx1.example.org'', priority = 10\<rparr>,
                                    \<lparr>exchange = ''mx2.example.org'', priority = 20\<rparr>],
                    response = None\<rparr>,
         chk_smtp = \<lparr>passed = True, message = ''Email address accepted by SMTP server'',
                      records = None,
                      response = Some ''220 ready\<newline>250 hello\<newline>250 sender ok\<newline>250 ok''\<rparr>,
         chk_disposable = \<lparr>passed = False,
                            message = ''Domain is a known disposable email provider'',
                            records = None, response = None\<rparr>,
         chk_roleBased = \<lparr>passed = True,
                           message = ''Email appears to be personal (not role-based)'',
                           records = None, response = None\<rparr>\<rparr>,
      executionTime = 65, timestamp = ''2024-01-01T00:00:00.000Z''\<rparr>"

definition enotfound :: js_error where
  "enotfound = JsError (Some ''ENOTFOUND'') ''queryMx ENOTFOUND example.org''"

definition mx_error_env :: env where
  "mx_error_env = (example_env (\<lambda>n. ''250 ok''))\<lparr>dns_resolveMx := (\<lambda>_. Settles 7 (Inl enotfound))\<rparr>"

definition mx_empty_env :: env where
  "mx_empty_env = (example_env (\<lambda>n. ''250 ok''))\<lparr>dns_resolveMx := (\<lambda>_. Settles 7 (Inr (Some [])))\<rparr>"

definition dns_error_env :: env where
  "dns_error_env = (example_env (\<lambda>n. ''250 ok''))
     \<lparr>dns_lookup := (\<lambda>_. Settles 12 (Inl (JsError (Some ''ENOTFOUND'') ''getaddrinfo ENOTFOUND'')))\<rparr>"

definition initial_mx :: check_result where
  "initial_mx = \<lparr>passed = False, message = [], records = Some [], response = None\<rparr>"

definition initial_smtp :: check_result where
  "initial_smtp = \<lparr>passed = False, message = [], records = None, response = Some []\<rparr>"

definition initial_true :: check_result where
  "initial_true = \<lparr>passed = True, message = [], records = None, response = None\<rparr>"

definition unresolvable_report :: report where
  "unresolvable_report =
     \<lparr>rep_email = JStr ''user@nonexistent-domain-example-zz.test'', isValid = False,
      checks =
        \<lparr>chk_syntax = plain_result True ''Email syntax is valid'',
         chk_domain = plain_result False ''Domain lookup failed: ENOTFOUND'',
         chk_mx = initial_mx, chk_smtp = initial_smtp,
         chk_disposable = initial_true, chk_roleBased = initial_true\<rparr>,
      executionTime = 12, timestamp = ''2024-01-01T00:00:00.000Z''\<rparr>"

definition no_mx_report :: report where
  "no_mx_report =
     \<lparr>rep_email = JStr ''user@example.org'', isValid = False,
      checks =
        \<lparr>chk_syntax = plain_result True ''Email syntax is valid'',
         chk_domain = plain_result True ''Domain exists and is resolvable'',
         chk_mx = \<lparr>passed = False, message = ''MX record lookup failed: ENOTFOUND'',
                    records = Some [], response = None\<rparr>,
         chk_smtp = initial_smtp,
         chk_disposable = initial_true, chk_roleBased = initial_true\<rparr>,
      executionTime = 17, timestamp = ''2024-01-01T00:00:00.000Z''\<rparr>"

definition sorted_example_records :: "mx_record list" where
  "sorted_example_records = [\<lparr>exchange = ''mx1.example.org'', priority = 10\<rparr>,
                             \<lparr>exchange = ''mx2.example.org'', priority = 20\<rparr>]"

definition found_two :: check_result where
  "found_two = \<lparr>passed = True, message = ''Found 2 MX record(s)'',
                 records = Some sorted_example_records, response = None\<rparr>"

definition rejected_calls :: "call list" where
  "rejected_calls =
     [ValidateSyntax (JStr ''user@example.org''), ValidateDomain (Some ''example.org''),
      ValidateMX (Some ''example.org''),
      ValidateSMTP (JStr ''user@example.org'') (Some sorted_example_records),
      CheckDisposable (Some ''example.org''), CheckRoleBased (Some ''user'')]"

definition rejected_report :: report where
  "rejected_report =
     \<lparr>rep_email = JStr ''user@example.org'', isValid = False,
      checks =
        \<lparr>chk_syntax = plain_result True ''Email syntax is valid'',
         chk_domain = plain_result True ''Domain exists and is resolvable'',
         chk_mx = \<lparr>passed = True, message = ''Found 2 MX record(s)'',
                    records = Some sorted_example_records, response = None\<rparr>,
         chk_smtp = all_failed,
         chk_disposable = plain_result True ''Domain is not a disposable email provider'',
         chk_roleBased = plain_result True ''Email appears to be personal (not role-based)''\<rparr>,
      executionTime = 1200, timestamp = ''2024-01-01T00:00:00.000Z''\<rparr>"














section \<open>Strings: counting and splitting\<close>

lemma count_list_dropWhile: "\<not> P c \<Longrightarrow> count_list (dropWhile P s) c = count_list s c"
  by (induction s) auto

lemma count_list_rev: "count_list (rev s) c = count_list s c"
  by (induction s) auto

lemma at_not_space: "\<not> is_js_space CHR ''@''"
  by (simp add: is_js_space_def)

lemma count_at_js_trim: "count_list (js_trim s) CHR ''@'' = count_list s CHR ''@''"
  by (simp add: js_trim_def count_list_rev count_list_dropWhile at_not_space)

lemma js_split_not_Nil: "js_split c s \<noteq> []"
  by (induction s) (auto split: list.splits)

lemma length_js_split: "length (js_split c s) = Suc (count_list s c)"
  by (induction s) (auto split: list.splits simp: js_split_not_Nil)

lemma js_split_two: "count_list s c = 1 \<Longrightarrow> \<exists>a b. js_split c s = [a, b]"
proof -
  assume "count_list s c = 1"
  then have "length (js_split c s) = 2" by (simp add: length_js_split)
  then show ?thesis by (cases "js_split c s" rule: list.exhaust) (auto simp: length_Suc_conv)
qed

section \<open>What a passed syntax check guarantees\<close>

lemma syntax_passed_JStr:
  assumes "passed (validateSyntax email)"
  shows "\<exists>raw. email = JStr raw \<and> raw \<noteq> [] \<and> count_list (js_trim raw) CHR ''@'' = 1"
  using assms
  by (cases email) (auto simp: validateSyntax_def plain_result_def Let_def split: if_splits)

lemma syntax_passed_parse:
  assumes "passed (validateSyntax email)"
  shows "\<exists>raw lp dm. email = JStr raw \<and> parseEmail_value email = Inr (Some lp, Some dm)"
proof -
  from syntax_passed_JStr [OF assms] obtain raw where
    r: "email = JStr raw" "count_list (js_trim raw) CHR ''@'' = 1" by blast
  then have "count_list raw CHR ''@'' = 1" by (simp add: count_at_js_trim)
  from js_split_two [OF this] obtain a b where "js_split CHR ''@'' raw = [a, b]" by blast
  then show ?thesis using r by (simp add: parseEmail_value_def parseEmail_def)
qed

section \<open>Timeouts and stages that cannot reject\<close>

lemma withTimeout_settles: "\<exists>t r. withTimeout p ms m = Settles t r"
  by (auto simp: withTimeout_def race_def Let_def split: promise.splits sum.splits)

lemma withTimeout_not_Never [simp]: "withTimeout p ms m \<noteq> Never"
  using withTimeout_settles [of p ms m] by auto

lemma withTimeout_late:
  "ms < d \<Longrightarrow> withTimeout (Settles d x) ms m =
     Settles ms (Inr \<lparr>passed = False, message = m, records = Some [], response = None\<rparr>)"
  by (simp add: withTimeout_def race_def Let_def)

lemma withTimeout_Never:
  "withTimeout Never ms m =
     Settles ms (Inr \<lparr>passed = False, message = m, records = Some [], response = None\<rparr>)"
  by (simp add: withTimeout_def race_def Let_def)

lemma checkDisposable_Some: "\<exists>r. checkDisposable v (Some d) = Inr r"
  by (simp add: checkDisposable_def Let_def)

lemma checkRoleBased_Some: "\<exists>r. checkRoleBased v (Some d) = Inr r"
  by (simp add: checkRoleBased_def Let_def)

section \<open>The heuristics' lists do not reach the SMTP stage\<close>

declare validateSMTP_loop.simps [simp del]

declare number_string.simps [simp del]

lemma on_data_frame:
  "on_data (v\<lparr>disposableDomains := D, roleBasedPrefixes := R\<rparr>) e email d st = on_data v e email d st"
proof -
  have eq: "fromEmail (v\<lparr>disposableDomains := D, roleBasedPrefixes := R\<rparr>) = fromEmail v"
    by simp
  show ?thesis unfolding on_data_def eq ..
qed

lemma deliver_frame:
  "deliver (v\<lparr>disposableDomains := D, roleBasedPrefixes := R\<rparr>) e email ev st = deliver v e email ev st"
  by (simp add: deliver_def on_data_frame split: sock_event.splits)

lemma run_session_frame:
  "run_session (v\<lparr>disposableDomains := D, roleBasedPrefixes := R\<rparr>) e email now script st
     = run_session v e email now script st"
proof (induction script arbitrary: now st)
  case Nil
  then show ?case by simp
next
  case (Cons a script)
  then show ?case by (cases a) (simp add: Let_def deliver_frame split: option.splits)
qed

lemma performSMTPCheck_frame:
  "performSMTPCheck (v\<lparr>disposableDomains := D, roleBasedPrefixes := R\<rparr>) e email h n
     = performSMTPCheck v e email h n"
  by (simp add: performSMTPCheck_def run_session_frame)

lemma try_hosts_frame:
  "try_hosts (v\<lparr>disposableDomains := D, roleBasedPrefixes := R\<rparr>) e email a recs st
     = try_hosts v e email a recs st"
  by (induction recs arbitrary: st)
     (simp_all add: performSMTPCheck_frame Let_def split: promise.splits sum.splits)

lemma validateSMTP_loop_frame:
  "validateSMTP_loop (v\<lparr>disposableDomains := D, roleBasedPrefixes := R\<rparr>) e email mx a st
     = validateSMTP_loop v e email mx a st"
proof (induction v e email mx a st rule: validateSMTP_loop.induct)
  case (1 v e email mxRecords attempt st)
  let ?v' = "v\<lparr>disposableDomains := D, roleBasedPrefixes := R\<rparr>"
  show ?case
  proof (cases "attempt < retryAttempts v")
    case False
    then show ?thesis
      by (simp add: validateSMTP_loop.simps [of ?v'] validateSMTP_loop.simps [of v])
  next
    case True
    show ?thesis
    proof (cases mxRecords)
      case None
      then show ?thesis using True
        by (simp add: validateSMTP_loop.simps [of ?v'] validateSMTP_loop.simps [of v])
    next
      case (Some recs)
      obtain st1 ex where th: "try_hosts v e email attempt recs st = (st1, ex)" by force
      show ?thesis
      proof (cases ex)
        case Completed
        note ih = "1.IH" [OF True Some th [symmetric] Completed]
        show ?thesis
          apply (subst validateSMTP_loop.simps [of ?v'])
          apply (subst validateSMTP_loop.simps [of v])
          using True Some th Completed ih
          by (simp add: try_hosts_frame)
      next
        case (Returned r)
        then show ?thesis using True Some th
          by (simp add: validateSMTP_loop.simps [of ?v' _ _ _ attempt]
                validateSMTP_loop.simps [of v _ _ _ attempt] try_hosts_frame)
      next
        case Hangs
        then show ?thesis using True Some th
          by (simp add: validateSMTP_loop.simps [of ?v' _ _ _ attempt]
                validateSMTP_loop.simps [of v _ _ _ attempt] try_hosts_frame)
      qed
    qed
  qed
qed

lemma validateSMTP_frame:
  "validateSMTP (v\<lparr>disposableDomains := D, roleBasedPrefixes := R\<rparr>) e email mx = validateSMTP v e email mx"
  by (simp add: validateSMTP_def validateSMTP_loop_frame)

section \<open>The pipeline\<close>

lemma validateEmail_returns:
  "\<exists>calls t r. validateEmail v e email = (calls, Settles t (Inr r))"
  by (simp add: validateEmail_def Let_def split: sum.split promise.split prod.split)

lemma validateEmail_template_throws:
  assumes "template_string email = Inl error"
  shows "validateEmail v e email = ([], Settles 0 (Inr (catch_block (new_report e email) 0 error)))"
  using assms by (simp add: validateEmail_def Let_def)

lemma isValid_flags:
  assumes "validateEmail v e email = (calls, Settles t (Inr r))"
  shows "isValid r = (passed (chk_syntax (checks r)) \<and> passed (chk_domain (checks r)) \<and>
                      passed (chk_mx (checks r)) \<and> passed (chk_smtp (checks r)))"
proof (cases "passed (validateSyntax email)")
  case False
  then show ?thesis using assms
    by (auto simp: validateEmail_def Let_def new_report_def catch_block_def split: sum.splits)
next
  case True
  from syntax_passed_parse [OF True] obtain raw lp dm where
    p: "email = JStr raw" "parseEmail_value email = Inr (Some lp, Some dm)" by blast
  obtain d where d: "checkDisposable v (Some dm) = Inr d" using checkDisposable_Some by blast
  obtain rb where rb: "checkRoleBased v (Some lp) = Inr rb" using checkRoleBased_Some by blast
  show ?thesis using assms True p d rb
    by (auto simp: validateEmail_def Let_def new_report_def catch_block_def
             split: sum.splits promise.splits if_splits)
qed

lemma isValid_frame:
  assumes "validateEmail v e email = (calls, Settles t (Inr r))"
  shows "\<exists>r'. validateEmail (v\<lparr>disposableDomains := D, roleBasedPrefixes := R\<rparr>) e email
                 = (calls, Settles t (Inr r')) \<and> isValid r' = isValid r"
proof (cases "passed (validateSyntax email)")
  case False
  then show ?thesis using assms
    by (auto simp: validateEmail_def Let_def split: sum.splits)
next
  case True
  let ?v' = "v\<lparr>disposableDomains := D, roleBasedPrefixes := R\<rparr>"
  from syntax_passed_parse [OF True] obtain raw lp dm where
    p: "email = JStr raw" "parseEmail_value email = Inr (Some lp, Some dm)" by blast
  obtain d where d: "checkDisposable v (Some dm) = Inr d" using checkDisposable_Some by blast
  obtain rb where rb: "checkRoleBased v (Some lp) = Inr rb" using checkRoleBased_Some by blast
  obtain d' where d': "checkDisposable ?v' (Some dm) = Inr d'" using checkDisposable_Some by blast
  obtain rb' where rb': "checkRoleBased ?v' (Some lp) = Inr rb'" using checkRoleBased_Some by blast
  show ?thesis using assms True p d rb d' rb'
    by (auto simp: validateEmail_def Let_def validateSMTP_frame
             split: sum.splits promise.splits if_splits)
qed

lemma accepted_run:
  "validateEmail example_validator (example_env (\<lambda>n. ''250 ok'')) (JStr ''test@mailinator.com'')
     = (accepted_calls, Settles 65 (Inr accepted_report))"
  by code_simp

text \<open>
  C1. In every report that \<open>validateEmail\<close> returns, \<open>isValid\<close> is the conjunction of the
  \<open>passed\<close> flags of the syntax, domain, mx and smtp checks; and replacing the
  disposable-domain and role-prefix lists by any others, which is all that the
  disposable and role-based checks depend on, leaves \<open>isValid\<close> as it is.
\<close>

theorem isValid_core_checks_only:
  assumes "validateEmail v e email = (calls, Settles t (Inr r))"
  shows "isValid r = (passed (chk_syntax (checks r)) \<and> passed (chk_domain (checks r)) \<and>
                      passed (chk_mx (checks r)) \<and> passed (chk_smtp (checks r))) \<and>
         (\<forall>D R. \<exists>r'. validateEmail (v\<lparr>disposableDomains := D, roleBasedPrefixes := R\<rparr>) e email
                        = (calls, Settles t (Inr r')) \<and> isValid r' = isValid r)"
  using isValid_flags [OF assms] isValid_frame [OF assms] by blast

theorem isValid_core_checks_only_witness:
  "validateEmail example_validator (example_env (\<lambda>n. ''250 ok'')) (JStr ''test@mailinator.com'')
     = (accepted_calls, Settles 65 (Inr accepted_report)) \<and>
   isValid accepted_report \<and> \<not> passed (chk_disposable (checks accepted_report)) \<and>
   (\<exists>r'. validateEmail (example_validator\<lparr>disposableDomains := {}, roleBasedPrefixes := {''test''}\<rparr>)
            (example_env (\<lambda>n. ''250 ok'')) (JStr ''test@mailinator.com'')
            = (accepted_calls, Settles 65 (Inr r')) \<and> isValid r')"
proof -
  have flags: "isValid accepted_report" "\<not> passed (chk_disposable (checks accepted_report))"
    by (simp_all add: accepted_report_def)
  show ?thesis
    using isValid_core_checks_only [OF accepted_run] accepted_run flags by blast
qed

text \<open>
  C2. \<open>validateEmail\<close> always returns a report: its promise is fulfilled, never rejected
  and never left pending. \<open>withTimeout\<close> turns a stage that has not settled by the
  deadline into a failed check result that carries the timeout message. An exception
  thrown inside the pipeline (the conversion of a non-string \<open>email\<close> in the first log
  message) is caught: the report comes back invalid, with the error message in the
  syntax check's message.
\<close>

theorem validateEmail_never_throws:
  "(\<exists>calls t r. validateEmail v e email = (calls, Settles t (Inr r))) \<and>
   withTimeout Never ms m =
     Settles ms (Inr \<lparr>passed = False, message = m, records = Some [], response = None\<rparr>) \<and>
   (\<forall>d x. ms < d \<longrightarrow> withTimeout (Settles d x) ms m =
     Settles ms (Inr \<lparr>passed = False, message = m, records = Some [], response = None\<rparr>)) \<and>
   (\<forall>error. template_string email = Inl error \<longrightarrow>
      (\<exists>r. validateEmail v e email = ([], Settles 0 (Inr r)) \<and> \<not> isValid r \<and>
           \<not> passed (chk_syntax (checks r)) \<and>
           message (chk_syntax (checks r)) = ''Validation error: '' @ error_message error))"
proof (intro conjI allI impI)
  show "\<exists>calls t r. validateEmail v e email = (calls, Settles t (Inr r))"
    by (rule validateEmail_returns)
  show "withTimeout Never ms m =
     Settles ms (Inr \<lparr>passed = False, message = m, records = Some [], response = None\<rparr>)"
    by (rule withTimeout_Never)
next
  fix d x assume "ms < d"
  then show "withTimeout (Settles d x) ms m =
     Settles ms (Inr \<lparr>passed = False, message = m, records = Some [], response = None\<rparr>)"
    by (rule withTimeout_late)
next
  fix error assume "template_string email = Inl error"
  then show "\<exists>r. validateEmail v e email = ([], Settles 0 (Inr r)) \<and> \<not> isValid r \<and>
           \<not> passed (chk_syntax (checks r)) \<and>
           message (chk_syntax (checks r)) = ''Validation error: '' @ error_message error"
    by (simp add: validateEmail_template_throws catch_block_def new_report_def)
qed

theorem validateEmail_never_throws_witness:
  "(2000::nat) < 2001 \<and>
   withTimeout (Settles 2001 (Inr (plain_result True ''Domain exists and is resolvable'')))
       2000 ''Domain lookup timeout'' =
     Settles 2000 (Inr \<lparr>passed = False, message = ''Domain lookup timeout'',
                         records = Some [], response = None\<rparr>) \<and>
   template_string (JOther (Inl symbol_error)) = Inl symbol_error \<and>
   (\<exists>r. validateEmail example_validator (example_env (\<lambda>n. ''250 ok'')) (JOther (Inl symbol_error))
           = ([], Settles 0 (Inr r)) \<and> \<not> isValid r \<and> \<not> passed (chk_syntax (checks r)) \<and>
         message (chk_syntax (checks r)) = ''Validation error: '' @ error_message symbol_error)"
  using validateEmail_never_throws [of example_validator "example_env (\<lambda>n. ''250 ok'')"
          "JOther (Inl symbol_error)" 2000 "''Domain lookup timeout''"]
  by simp

section \<open>The MX check\<close>

lemma validateMX_passed:
  assumes "validateMX e dm = Settles t (Inr r)" and "passed r"
  shows "\<exists>recs. records r = Some recs \<and> sorted (map priority recs) \<and>
           message r = ''Found '' @ number_string (length recs) @ '' MX record(s)''"
  using assms
  by (auto simp: validateMX_def Let_def split: promise.splits sum.splits option.splits if_splits)

lemma withTimeout_passed:
  assumes "withTimeout p ms m = Settles t (Inr r)" and "passed r"
  shows "p = Settles t (Inr r)"
  using assms
  by (auto simp: withTimeout_def race_def Let_def split: promise.splits sum.splits if_splits)

lemma validateMX_error:
  "dns_resolveMx e dm = Settles t (Inl error) \<Longrightarrow>
     validateMX e dm = Settles t (Inr \<lparr>passed = False,
        message = ''MX record lookup failed: '' @ code_or_message error,
        records = Some [], response = None\<rparr>)"
  by (simp add: validateMX_def)

lemma validateMX_empty:
  "dns_resolveMx e dm = Settles t (Inr (Some [])) \<Longrightarrow>
     validateMX e dm = Settles t (Inr \<lparr>passed = False,
        message = ''No MX records found for domain'', records = Some [], response = None\<rparr>)"
  by (simp add: validateMX_def)

lemma validateMX_passed_answer:
  assumes "validateMX e dm = Settles t (Inr r)" and "passed r"
  shows "\<exists>answer recs. dns_resolveMx e dm = Settles t (Inr (Some answer)) \<and> answer \<noteq> [] \<and>
           records r = Some recs \<and> mset recs = mset answer \<and> sorted (map priority recs) \<and>
           message r = ''Found '' @ number_string (length answer) @ '' MX record(s)''"
  using assms
  by (auto simp: validateMX_def Let_def split: promise.splits sum.splits option.splits if_splits)

lemma validateMX_answer:
  assumes "dns_resolveMx e dm = Settles t (Inr (Some answer))" and "answer \<noteq> []"
  shows "\<exists>recs. validateMX e dm =
           Settles t (Inr \<lparr>passed = True,
                            message = ''Found '' @ number_string (length answer) @ '' MX record(s)'',
                            records = Some recs, response = None\<rparr>) \<and>
           mset recs = mset answer \<and> sorted (map priority recs)"
  using assms by (simp add: validateMX_def Let_def)

lemma report_mx_passed_domain:
  assumes "validateEmail v e (JStr raw) = (calls, Settles t (Inr r))" and "passed (chk_mx (checks r))"
  shows "\<exists>t'. withTimeout (validateMX e (snd (parseEmail raw))) 2000 ''MX record lookup timeout''
                    = Settles t' (Inr (chk_mx (checks r)))"
proof (cases "passed (validateSyntax (JStr raw))")
  case False
  then show ?thesis using assms
    by (auto simp: validateEmail_def Let_def new_report_def catch_block_def split: sum.splits)
next
  case True
  from syntax_passed_parse [OF True] obtain lp dm where
    p: "parseEmail_value (JStr raw) = Inr (Some lp, Some dm)" by blast
  then have q: "parseEmail raw = (Some lp, Some dm)" by (simp add: parseEmail_value_def)
  obtain d where d: "checkDisposable v (Some dm) = Inr d" using checkDisposable_Some by blast
  obtain rb where rb: "checkRoleBased v (Some lp) = Inr rb" using checkRoleBased_Some by blast
  show ?thesis using assms True p q d rb
    by (auto simp: validateEmail_def Let_def new_report_def catch_block_def
             split: sum.splits promise.splits if_splits)
qed

text \<open>
  C6. Whenever the mx check of a returned report has passed, the resolver has answered
  the query for the parsed domain with a non-empty list, and the records of the check
  are this answer rearranged (the same records, each as often) in non-decreasing order
  of priority; the message is \<open>Found n MX record(s)\<close> for the number \<open>n\<close> of records in
  the answer. The same holds of \<open>validateMX\<close> itself, in both directions: a non-empty
  answer gives such a passed result, and a passed result comes from such an answer. A
  query that fails, and a query that answers with no record, both give a failed result
  with an explanatory message and an empty record list.
\<close>

theorem mx_check_sorted_and_counted:
  "(\<forall>calls t r. validateEmail v e (JStr raw) = (calls, Settles t (Inr r)) \<and>
        passed (chk_mx (checks r)) \<longrightarrow>
      (\<exists>t' answer recs.
         dns_resolveMx e (snd (parseEmail raw)) = Settles t' (Inr (Some answer)) \<and>
         records (chk_mx (checks r)) = Some recs \<and> mset recs = mset answer \<and>
         sorted (map priority recs) \<and>
         message (chk_mx (checks r)) = ''Found '' @ number_string (length answer) @ '' MX record(s)'')) \<and>
   (\<forall>t answer. dns_resolveMx e dm = Settles t (Inr (Some answer)) \<and> answer \<noteq> [] \<longrightarrow>
      (\<exists>recs. validateMX e dm =
           Settles t (Inr \<lparr>passed = True,
                            message = ''Found '' @ number_string (length answer) @ '' MX record(s)'',
                            records = Some recs, response = None\<rparr>) \<and>
           mset recs = mset answer \<and> sorted (map priority recs))) \<and>
   (\<forall>t r. validateMX e dm = Settles t (Inr r) \<and> passed r \<longrightarrow>
      (\<exists>answer recs. dns_resolveMx e dm = Settles t (Inr (Some answer)) \<and>
         records r = Some recs \<and> mset recs = mset answer \<and> sorted (map priority recs) \<and>
         message r = ''Found '' @ number_string (length answer) @ '' MX record(s)'')) \<and>
   (\<forall>t error. dns_resolveMx e dm = Settles t (Inl error) \<longrightarrow>
      validateMX e dm = Settles t (Inr \<lparr>passed = False,
        message = ''MX record lookup failed: '' @ code_or_message error,
        records = Some [], response = None\<rparr>)) \<and>
   (\<forall>t. dns_resolveMx e dm = Settles t (Inr (Some [])) \<longrightarrow>
      validateMX e dm = Settles t (Inr \<lparr>passed = False,
        message = ''No MX records found for domain'', records = Some [], response = None\<rparr>))"
proof (intro conjI allI impI)
  fix calls t r
  assume a: "validateEmail v e (JStr raw) = (calls, Settles t (Inr r)) \<and> passed (chk_mx (checks r))"
  then obtain t' where
    "withTimeout (validateMX e (snd (parseEmail raw))) 2000 ''MX record lookup timeout''
       = Settles t' (Inr (chk_mx (checks r)))"
    using report_mx_passed_domain by blast
  with a have "validateMX e (snd (parseEmail raw)) = Settles t' (Inr (chk_mx (checks r)))"
    using withTimeout_passed by blast
  from validateMX_passed_answer [OF this] a
  show "\<exists>t' answer recs.
         dns_resolveMx e (snd (parseEmail raw)) = Settles t' (Inr (Some answer)) \<and>
         records (chk_mx (checks r)) = Some recs \<and> mset recs = mset answer \<and>
         sorted (map priority recs) \<and>
         message (chk_mx (checks r)) = ''Found '' @ number_string (length answer) @ '' MX record(s)''"
    by blast
next
  fix t answer assume "dns_resolveMx e dm = Settles t (Inr (Some answer)) \<and> answer \<noteq> []"
  then show "\<exists>recs. validateMX e dm =
           Settles t (Inr \<lparr>passed = True,
                            message = ''Found '' @ number_string (length answer) @ '' MX record(s)'',
                            records = Some recs, response = None\<rparr>) \<and>
           mset recs = mset answer \<and> sorted (map priority recs)"
    using validateMX_answer by blast
next
  fix t r assume "validateMX e dm = Settles t (Inr r) \<and> passed r"
  then show "\<exists>answer recs. dns_resolveMx e dm = Settles t (Inr (Some answer)) \<and>
         records r = Some recs \<and> mset recs = mset answer \<and> sorted (map priority recs) \<and>
         message r = ''Found '' @ number_string (length answer) @ '' MX record(s)''"
    using validateMX_passed_answer by blast
next
  fix t error assume "dns_resolveMx e dm = Settles t (Inl error)"
  then show "validateMX e dm = Settles t (Inr \<lparr>passed = False,
        message = ''MX record lookup failed: '' @ code_or_message error,
        records = Some [], response = None\<rparr>)" by (rule validateMX_error)
next
  fix t assume "dns_resolveMx e dm = Settles t (Inr (Some []))"
  then show "validateMX e dm = Settles t (Inr \<lparr>passed = False,
        message = ''No MX records found for domain'', records = Some [], response = None\<rparr>)"
    by (rule validateMX_empty)
qed

lemma example_mx:
  "dns_resolveMx (example_env (\<lambda>n. ''250 ok'')) (snd (parseEmail ''test@mailinator.com''))
     = Settles 10 (Inr (Some example_records))"
  "dns_resolveMx (example_env (\<lambda>n. ''250 ok'')) (Some ''mailinator.com'')
     = Settles 10 (Inr (Some example_records))"
  "example_records \<noteq> []"
  "validateMX (example_env (\<lambda>n. ''250 ok'')) (Some ''mailinator.com'') = Settles 10 (Inr found_two)"
  "passed found_two"
  "passed (chk_mx (checks accepted_report))"
  "dns_resolveMx mx_error_env (Some ''example.org'') = Settles 7 (Inl enotfound)"
  "dns_resolveMx mx_empty_env (Some ''example.org'') = Settles 7 (Inr (Some []))"
  "code_or_message enotfound = ''ENOTFOUND''"
  "records found_two = Some [\<lparr>exchange = ''mx1.example.org'', priority = 10\<rparr>,
                            \<lparr>exchange = ''mx2.example.org'', priority = 20\<rparr>]"
  "message found_two = ''Found 2 MX record(s)''"
  by code_simp+

theorem mx_check_sorted_and_counted_witness:
  "validateEmail example_validator (example_env (\<lambda>n. ''250 ok'')) (JStr ''test@mailinator.com'')
     = (accepted_calls, Settles 65 (Inr accepted_report)) \<and>
   passed (chk_mx (checks accepted_report)) \<and>
   (\<exists>t' answer recs.
      dns_resolveMx (example_env (\<lambda>n. ''250 ok'')) (snd (parseEmail ''test@mailinator.com''))
        = Settles t' (Inr (Some answer)) \<and>
      records (chk_mx (checks accepted_report)) = Some recs \<and> mset recs = mset answer \<and>
      sorted (map priority recs) \<and>
      message (chk_mx (checks accepted_report))
        = ''Found '' @ number_string (length answer) @ '' MX record(s)'') \<and>
   dns_resolveMx (example_env (\<lambda>n. ''250 ok'')) (Some ''mailinator.com'')
     = Settles 10 (Inr (Some [\<lparr>exchange = ''mx2.example.org'', priority = 20\<rparr>,
                               \<lparr>exchange = ''mx1.example.org'', priority = 10\<rparr>])) \<and>
   validateMX (example_env (\<lambda>n. ''250 ok'')) (Some ''mailinator.com'') = Settles 10 (Inr found_two) \<and>
   records found_two = Some [\<lparr>exchange = ''mx1.example.org'', priority = 10\<rparr>,
                             \<lparr>exchange = ''mx2.example.org'', priority = 20\<rparr>] \<and>
   message found_two = ''Found 2 MX record(s)'' \<and>
   (\<exists>recs. validateMX (example_env (\<lambda>n. ''250 ok'')) (Some ''mailinator.com'') =
           Settles 10 (Inr \<lparr>passed = True,
                             message = ''Found '' @ number_string (length example_records)
                                         @ '' MX record(s)'',
                             records = Some recs, response = None\<rparr>) \<and>
           mset recs = mset example_records \<and> sorted (map priority recs)) \<and>
   (\<exists>answer recs. dns_resolveMx (example_env (\<lambda>n. ''250 ok'')) (Some ''mailinator.com'')
                     = Settles 10 (Inr (Some answer)) \<and>
         records found_two = Some recs \<and> mset recs = mset answer \<and> sorted (map priority recs) \<and>
         message found_two = ''Found '' @ number_string (length answer) @ '' MX record(s)'') \<and>
   dns_resolveMx mx_error_env (Some ''example.org'') = Settles 7 (Inl enotfound) \<and>
   validateMX mx_error_env (Some ''example.org'') =
     Settles 7 (Inr \<lparr>passed = False, message = ''MX record lookup failed: ENOTFOUND'',
                      records = Some [], response = None\<rparr>) \<and>
   dns_resolveMx mx_empty_env (Some ''example.org'') = Settles 7 (Inr (Some [])) \<and>
   validateMX mx_empty_env (Some ''example.org'') =
     Settles 7 (Inr \<lparr>passed = False, message = ''No MX records found for domain'',
                      records = Some [], response = None\<rparr>)"
proof -
  note t1 = mx_check_sorted_and_counted [of example_validator "example_env (\<lambda>n. ''250 ok'')"
            "''test@mailinator.com''" "Some ''mailinator.com''",
            THEN conjunct1, rule_format, OF conjI [OF accepted_run example_mx(6)]]
  note t2 = mx_check_sorted_and_counted [of example_validator "example_env (\<lambda>n. ''250 ok'')"
            "''test@mailinator.com''" "Some ''mailinator.com''",
            THEN conjunct2, THEN conjunct1, rule_format,
            OF conjI [OF example_mx(2) example_mx(3)]]
  note t3 = mx_check_sorted_and_counted [of example_validator "example_env (\<lambda>n. ''250 ok'')"
            "''test@mailinator.com''" "Some ''mailinator.com''",
            THEN conjunct2, THEN conjunct2, THEN conjunct1, rule_format,
            OF conjI [OF example_mx(4) example_mx(5)]]
  note t4 = mx_check_sorted_and_counted [of example_validator mx_error_env
            "''test@mailinator.com''" "Some ''example.org''",
            THEN conjunct2, THEN conjunct2, THEN conjunct2, THEN conjunct1, rule_format,
            OF example_mx(7), unfolded example_mx(9)]
  note t5 = mx_check_sorted_and_counted [of example_validator mx_empty_env
            "''test@mailinator.com''" "Some ''example.org''",
            THEN conjunct2, THEN conjunct2, THEN conjunct2, THEN conjunct2, rule_format,
            OF example_mx(8)]
  have t4': "validateMX mx_error_env (Some ''example.org'') =
     Settles 7 (Inr \<lparr>passed = False, message = ''MX record lookup failed: ENOTFOUND'',
                      records = Some [], response = None\<rparr>)"
    using t4 by simp
  show ?thesis
    by (intro conjI)
       (rule accepted_run example_mx(6) t1 example_mx(2) [unfolded example_records_def]
             example_mx(4) example_mx(10) example_mx(11) t2 t3 example_mx(7) t4' example_mx(8) t5)+
qed

section \<open>The SMTP session\<close>

lemma settled_cleanup: "settled (cleanup st) = settled st"
  by (simp add: cleanup_def Let_def)

lemma settled_session_write: "settled (session_write d st) = settled st"
  by (simp add: session_write_def)

lemma response_acc_cleanup: "response_acc (cleanup st) = response_acc st"
  by (simp add: cleanup_def Let_def)

lemma response_acc_session_write: "response_acc (session_write d st) = response_acc st"
  by (simp add: session_write_def)

text \<open>
  C4. In the state after \<open>RCPT TO\<close> was sent (\<open>step = 3\<close>, promise pending) the \<open>data\<close>
  listener resolves the promise by the code at the start of the reply: 250 passes with
  the message \<open>Email address accepted by SMTP server\<close>; 550, 551 and 553 fail with
  \<open>Email address rejected:\<close> and the reply; 450, 451 and 452 fail with
  \<open>Temporary failure (possible greylisting):\<close> and the reply; anything else fails with
  \<open>Unexpected response:\<close> and the reply.
\<close>

theorem rcpt_response_classification:
  assumes "step st = 3" and "settled st = None"
  shows "settled (on_data v e email data st) =
           Some (Inr (let msg = js_trim data; code = js_parseInt (take 3 msg) in
             smtp_result (code = Some 250)
               (if code = Some 250 then ''Email address accepted by SMTP server''
                else if code = Some 550 \<or> code = Some 551 \<or> code = Some 553
                then ''Email address rejected: '' @ msg
                else if code = Some 450 \<or> code = Some 451 \<or> code = Some 452
                then ''Temporary failure (possible greylisting): '' @ msg
                else ''Unexpected response: '' @ msg)
               (js_trim (response_acc st @ msg @ [CHR 0x0A]))))"
  using assms
  by (simp add: on_data_def Let_def resolve_def settled_cleanup settled_session_write
        response_acc_cleanup response_acc_session_write)

lemma rcpt_eval_accepted:
  "(let msg = js_trim ''250 2.1.5 ok ''; code = js_parseInt (take 3 msg) in
             smtp_result (code = Some 250)
               (if code = Some 250 then ''Email address accepted by SMTP server''
                else if code = Some 550 \<or> code = Some 551 \<or> code = Some 553
                then ''Email address rejected: '' @ msg
                else if code = Some 450 \<or> code = Some 451 \<or> code = Some 452
                then ''Temporary failure (possible greylisting): '' @ msg
                else ''Unexpected response: '' @ msg)
               (js_trim (response_acc rcpt_sent @ msg @ [CHR 0x0A])))
   = smtp_result True ''Email address accepted by SMTP server'' (''220 ready\<newline>250 hello\<newline>250 sender ok\<newline>'' @ ''250 2.1.5 ok'')"
  by code_simp

lemma rcpt_eval_rejected:
  "(let msg = js_trim ''550 no such user''; code = js_parseInt (take 3 msg) in
             smtp_result (code = Some 250)
               (if code = Some 250 then ''Email address accepted by SMTP server''
                else if code = Some 550 \<or> code = Some 551 \<or> code = Some 553
                then ''Email address rejected: '' @ msg
                else if code = Some 450 \<or> code = Some 451 \<or> code = Some 452
                then ''Temporary failure (possible greylisting): '' @ msg
                else ''Unexpected response: '' @ msg)
               (js_trim (response_acc rcpt_sent @ msg @ [CHR 0x0A])))
   = smtp_result False ''Email address rejected: 550 no such user'' (''220 ready\<newline>250 hello\<newline>250 sender ok\<newline>'' @ ''550 no such user'')"
  by code_simp

lemma rcpt_eval_transient:
  "(let msg = js_trim ''451 try later''; code = js_parseInt (take 3 msg) in
             smtp_result (code = Some 250)
               (if code = Some 250 then ''Email address accepted by SMTP server''
                else if code = Some 550 \<or> code = Some 551 \<or> code = Some 553
                then ''Email address rejected: '' @ msg
                else if code = Some 450 \<or> code = Some 451 \<or> code = Some 452
                then ''Temporary failure (possible greylisting): '' @ msg
                else ''Unexpected response: '' @ msg)
               (js_trim (response_acc rcpt_sent @ msg @ [CHR 0x0A])))
   = smtp_result False ''Temporary failure (possible greylisting): 451 try later'' (''220 ready\<newline>250 hello\<newline>250 sender ok\<newline>'' @ ''451 try later'')"
  by code_simp

lemma rcpt_eval_unexpected:
  "(let msg = js_trim ''252 cannot verify''; code = js_parseInt (take 3 msg) in
             smtp_result (code = Some 250)
               (if code = Some 250 then ''Email address accepted by SMTP server''
                else if code = Some 550 \<or> code = Some 551 \<or> code = Some 553
                then ''Email address rejected: '' @ msg
                else if code = Some 450 \<or> code = Some 451 \<or> code = Some 452
                then ''Temporary failure (possible greylisting): '' @ msg
                else ''Unexpected response: '' @ msg)
               (js_trim (response_acc rcpt_sent @ msg @ [CHR 0x0A])))
   = smtp_result False ''Unexpected response: 252 cannot verify'' (''220 ready\<newline>250 hello\<newline>250 sender ok\<newline>'' @ ''252 cannot verify'')"
  by code_simp

theorem rcpt_response_classification_witness:
  "step rcpt_sent = 3 \<and> settled rcpt_sent = None \<and>
   settled (on_data example_validator (example_env (\<lambda>n. ''250 ok'')) (JStr ''a@b.co'')
              ''250 2.1.5 ok '' rcpt_sent)
     = Some (Inr (smtp_result True ''Email address accepted by SMTP server''
                    (''220 ready\<newline>250 hello\<newline>250 sender ok\<newline>'' @ ''250 2.1.5 ok''))) \<and>
   settled (on_data example_validator (example_env (\<lambda>n. ''250 ok'')) (JStr ''a@b.co'')
              ''550 no such user'' rcpt_sent)
     = Some (Inr (smtp_result False ''Email address rejected: 550 no such user''
                    (''220 ready\<newline>250 hello\<newline>250 sender ok\<newline>'' @ ''550 no such user''))) \<and>
   settled (on_data example_validator (example_env (\<lambda>n. ''250 ok'')) (JStr ''a@b.co'')
              ''451 try later'' rcpt_sent)
     = Some (Inr (smtp_result False ''Temporary failure (possible greylisting): 451 try later''
                    (''220 ready\<newline>250 hello\<newline>250 sender ok\<newline>'' @ ''451 try later''))) \<and>
   settled (on_data example_validator (example_env (\<lambda>n. ''250 ok'')) (JStr ''a@b.co'')
              ''252 cannot verify'' rcpt_sent)
     = Some (Inr (smtp_result False ''Unexpected response: 252 cannot verify''
                    (''220 ready\<newline>250 hello\<newline>250 sender ok\<newline>'' @ ''252 cannot verify'')))"
proof -
  have a: "step rcpt_sent = 3" and b: "settled rcpt_sent = None"
    by (simp_all add: rcpt_sent_def new_session_def)
  note c = rcpt_response_classification [OF a b, of example_validator
             "example_env (\<lambda>n. ''250 ok'')" "JStr ''a@b.co''"]
  show ?thesis
    using a b c [of "''250 2.1.5 ok ''"] c [of "''550 no such user''"]
          c [of "''451 try later''"] c [of "''252 cannot verify''"]
    by (simp only: rcpt_eval_accepted rcpt_eval_rejected rcpt_eval_transient
          rcpt_eval_unexpected simp_thms)
qed

section \<open>Early returns\<close>

lemma validateSyntax_at_count:
  assumes "raw \<noteq> []" and "count_list raw CHR ''@'' \<noteq> 1"
  shows "validateSyntax (JStr raw) = plain_result False ''Email must contain exactly one @ symbol''"
  using assms by (simp add: validateSyntax_def Let_def count_at_js_trim)

lemma validateEmail_syntax_failed:
  assumes "\<not> passed (validateSyntax (JStr raw))"
  shows "validateEmail v e (JStr raw) =
           ([ValidateSyntax (JStr raw)],
            Settles 0 (Inr ((new_report e (JStr raw))
              \<lparr>checks := (checks (new_report e (JStr raw)))\<lparr>chk_syntax := validateSyntax (JStr raw)\<rparr>\<rparr>)))"
  using assms by (simp add: validateEmail_def Let_def new_report_def)

text \<open>
  C8 (as amended). For every non-empty string with no \<open>@\<close> or with two or more, the
  syntax check fails with the message \<open>Email must contain exactly one @ symbol\<close>, and
  \<open>validateEmail\<close> returns at once: \<open>validateSyntax\<close> is the only method called, and
  every other check of the report is as it was initialised.
\<close>

theorem at_count_fails_syntax:
  assumes "raw \<noteq> []" and "count_list raw CHR ''@'' \<noteq> 1"
  shows "validateSyntax (JStr raw) = plain_result False ''Email must contain exactly one @ symbol'' \<and>
         validateEmail v e (JStr raw) =
           ([ValidateSyntax (JStr raw)],
            Settles 0 (Inr ((new_report e (JStr raw))
              \<lparr>checks := (checks (new_report e (JStr raw)))
                 \<lparr>chk_syntax := plain_result False ''Email must contain exactly one @ symbol''\<rparr>\<rparr>)))"
proof -
  have s: "validateSyntax (JStr raw) = plain_result False ''Email must contain exactly one @ symbol''"
    using assms by (rule validateSyntax_at_count)
  then have "\<not> passed (validateSyntax (JStr raw))" by (simp add: plain_result_def)
  from validateEmail_syntax_failed [OF this] s show ?thesis by simp
qed

theorem at_count_fails_syntax_witness:
  "''a@b@c.org'' \<noteq> [] \<and> count_list ''a@b@c.org'' CHR ''@'' \<noteq> 1 \<and>
   validateSyntax (JStr ''a@b@c.org'') = plain_result False ''Email must contain exactly one @ symbol'' \<and>
   validateEmail example_validator (example_env (\<lambda>n. ''250 ok'')) (JStr ''a@b@c.org'') =
     ([ValidateSyntax (JStr ''a@b@c.org'')],
      Settles 0 (Inr ((new_report (example_env (\<lambda>n. ''250 ok'')) (JStr ''a@b@c.org''))
        \<lparr>checks := (checks (new_report (example_env (\<lambda>n. ''250 ok'')) (JStr ''a@b@c.org'')))
           \<lparr>chk_syntax := plain_result False ''Email must contain exactly one @ symbol''\<rparr>\<rparr>)))"
proof -
  have a: "''a@b@c.org'' \<noteq> []" by simp
  have b: "count_list ''a@b@c.org'' CHR ''@'' \<noteq> 1" by simp
  show ?thesis
    using at_count_fails_syntax [OF a b, of example_validator "example_env (\<lambda>n. ''250 ok'')"] a b
    by blast
qed

text \<open>
  C8 as stated fails for the empty string, which has no \<open>@\<close>: the guard for a missing
  or non-string input comes first and gives another message.
\<close>

theorem empty_string_counterexample:
  "count_list [] CHR ''@'' \<noteq> 1 \<and>
   validateSyntax (JStr []) = plain_result False ''Email is required and must be a string'' \<and>
   message (validateSyntax (JStr [])) \<noteq> ''Email must contain exactly one @ symbol''"
  by (simp add: validateSyntax_def plain_result_def)

lemma early_return_cases:
  assumes "validateEmail v e email = (calls, Settles t (Inr r))"
    and "\<not> (passed (chk_syntax (checks r)) \<and> passed (chk_domain (checks r)) \<and> passed (chk_mx (checks r)))"
  shows "chk_disposable (checks r) = chk_disposable (checks (new_report e email)) \<and>
         chk_roleBased (checks r) = chk_roleBased (checks (new_report e email)) \<and>
         chk_smtp (checks r) = chk_smtp (checks (new_report e email)) \<and>
         (\<not> passed (chk_syntax (checks r)) \<longrightarrow>
            chk_domain (checks r) = chk_domain (checks (new_report e email)) \<and>
            chk_mx (checks r) = chk_mx (checks (new_report e email))) \<and>
         (passed (chk_syntax (checks r)) \<and> \<not> passed (chk_domain (checks r)) \<longrightarrow>
            chk_mx (checks r) = chk_mx (checks (new_report e email)))"
proof (cases "passed (validateSyntax email)")
  case False
  then show ?thesis using assms
    by (auto simp: validateEmail_def Let_def new_report_def catch_block_def split: sum.splits)
next
  case True
  from syntax_passed_parse [OF True] obtain raw lp dm where
    p: "email = JStr raw" "parseEmail_value email = Inr (Some lp, Some dm)" by blast
  obtain d where d: "checkDisposable v (Some dm) = Inr d" using checkDisposable_Some by blast
  obtain rb where rb: "checkRoleBased v (Some lp) = Inr rb" using checkRoleBased_Some by blast
  show ?thesis using assms True p d rb
    by (auto simp: validateEmail_def Let_def new_report_def catch_block_def
             split: sum.splits promise.splits if_splits)
qed

lemma unresolvable_run:
  "validateEmail example_validator dns_error_env (JStr ''user@nonexistent-domain-example-zz.test'')
     = ([ValidateSyntax (JStr ''user@nonexistent-domain-example-zz.test''),
         ValidateDomain (Some ''nonexistent-domain-example-zz.test'')],
        Settles 12 (Inr unresolvable_report))"
  by code_simp

lemma no_mx_run:
  "validateEmail example_validator mx_error_env (JStr ''user@example.org'')
     = ([ValidateSyntax (JStr ''user@example.org''), ValidateDomain (Some ''example.org''),
         ValidateMX (Some ''example.org'')],
        Settles 17 (Inr no_mx_report))"
  by code_simp

lemma rejected_run:
  "validateEmail example_validator (example_env (\<lambda>n. ''550 no such user'')) (JStr ''user@example.org'')
     = (rejected_calls, Settles 1200 (Inr rejected_report))"
  by code_simp

lemma two_ats_run:
  "validateEmail example_validator (example_env (\<lambda>n. ''250 ok'')) (JStr ''a@b@c.org'') =
     ([ValidateSyntax (JStr ''a@b@c.org'')],
      Settles 0 (Inr ((new_report (example_env (\<lambda>n. ''250 ok'')) (JStr ''a@b@c.org''))
        \<lparr>checks := (checks (new_report (example_env (\<lambda>n. ''250 ok'')) (JStr ''a@b@c.org'')))
           \<lparr>chk_syntax := plain_result False ''Email must contain exactly one @ symbol''\<rparr>\<rparr>)))"
proof -
  have s: "validateSyntax (JStr ''a@b@c.org'') = plain_result False ''Email must contain exactly one @ symbol''"
    by (rule validateSyntax_at_count) simp_all
  then have "\<not> passed (validateSyntax (JStr ''a@b@c.org''))" by (simp add: plain_result_def)
  from validateEmail_syntax_failed [OF this] s show ?thesis by simp
qed

text \<open>
  C10. When the pipeline returns early, that is when the syntax, domain or mx check of
  the returned report has not passed, the disposable and role-based checks are still
  \<open>passed = true\<close> with an empty message, and the checks that were not reached keep
  their initial \<open>passed = false\<close> values.
\<close>

theorem early_return_keeps_defaults:
  assumes "validateEmail v e email = (calls, Settles t (Inr r))"
    and "\<not> (passed (chk_syntax (checks r)) \<and> passed (chk_domain (checks r)) \<and> passed (chk_mx (checks r)))"
  shows "chk_disposable (checks r) = \<lparr>passed = True, message = [], records = None, response = None\<rparr> \<and>
         chk_roleBased (checks r) = \<lparr>passed = True, message = [], records = None, response = None\<rparr> \<and>
         chk_smtp (checks r) = \<lparr>passed = False, message = [], records = None, response = Some []\<rparr> \<and>
         (\<not> passed (chk_syntax (checks r)) \<longrightarrow>
            chk_domain (checks r) = \<lparr>passed = False, message = [], records = None, response = None\<rparr> \<and>
            chk_mx (checks r) = \<lparr>passed = False, message = [], records = Some [], response = None\<rparr>) \<and>
         (passed (chk_syntax (checks r)) \<and> \<not> passed (chk_domain (checks r)) \<longrightarrow>
            chk_mx (checks r) = \<lparr>passed = False, message = [], records = Some [], response = None\<rparr>)"
  using early_return_cases [OF assms] by (simp add: new_report_def)

theorem early_return_keeps_defaults_witness:
  "(validateEmail example_validator dns_error_env (JStr ''user@nonexistent-domain-example-zz.test'')
     = ([ValidateSyntax (JStr ''user@nonexistent-domain-example-zz.test''),
         ValidateDomain (Some ''nonexistent-domain-example-zz.test'')],
        Settles 12 (Inr unresolvable_report)) \<and>
    passed (chk_syntax (checks unresolvable_report)) \<and>
    \<not> passed (chk_domain (checks unresolvable_report)) \<and>
    chk_disposable (checks unresolvable_report) =
      \<lparr>passed = True, message = [], records = None, response = None\<rparr> \<and>
    chk_roleBased (checks unresolvable_report) =
      \<lparr>passed = True, message = [], records = None, response = None\<rparr> \<and>
    chk_smtp (checks unresolvable_report) =
      \<lparr>passed = False, message = [], records = None, response = Some []\<rparr> \<and>
    chk_mx (checks unresolvable_report) =
      \<lparr>passed = False, message = [], records = Some [], response = None\<rparr>)"
proof -
  have h: "passed (chk_syntax (checks unresolvable_report))"
          "\<not> passed (chk_domain (checks unresolvable_report))"
    by (simp_all add: unresolvable_report_def plain_result_def)
  then have early: "\<not> (passed (chk_syntax (checks unresolvable_report)) \<and>
                       passed (chk_domain (checks unresolvable_report)) \<and>
                       passed (chk_mx (checks unresolvable_report)))" by simp
  show ?thesis
    using early_return_keeps_defaults [OF unresolvable_run early] unresolvable_run h by simp
qed

lemma withTimeout_no_reject:
  "(\<And>t x. p \<noteq> Settles t (Inl x)) \<Longrightarrow> withTimeout p ms m \<noteq> Settles t' (Inl x')"
  by (auto simp: withTimeout_def race_def Let_def split: promise.splits sum.splits if_splits)

lemma validateSMTP_loop_no_reject:
  "mx = Some recs \<Longrightarrow> snd (validateSMTP_loop v e email mx a st) \<noteq> Settles t (Inl x)"
proof (induction v e email mx a st rule: validateSMTP_loop.induct)
  case (1 v e email mxRecords attempt st)
  show ?case
  proof (cases "attempt < retryAttempts v")
    case False
    then show ?thesis by (simp add: validateSMTP_loop.simps [of v])
  next
    case True
    obtain st1 ex where th: "try_hosts v e email attempt recs st = (st1, ex)" by force
    show ?thesis
    proof (cases ex)
      case Completed
      note ih = "1.IH" [OF True "1.prems" th [symmetric] Completed "1.prems"]
      show ?thesis
        apply (subst validateSMTP_loop.simps)
        using True "1.prems" th Completed ih by simp
    next
      case (Returned r)
      then show ?thesis using True "1.prems" th
        by (simp add: validateSMTP_loop.simps [of v _ _ _ attempt])
    next
      case Hangs
      then show ?thesis using True "1.prems" th
        by (simp add: validateSMTP_loop.simps [of v _ _ _ attempt])
    qed
  qed
qed

lemma smtp_stage_no_reject:
  assumes "withTimeout (validateMX e dm) ms m = Settles t (Inr mxResult)" and "passed mxResult"
  shows "withTimeout (snd (validateSMTP v e email (records mxResult))) ms' m' \<noteq> Settles t' (Inl x)"
proof -
  from withTimeout_passed [OF assms] have "validateMX e dm = Settles t (Inr mxResult)" .
  from validateMX_passed [OF this assms(2)] obtain recs where "records mxResult = Some recs" by blast
  then show ?thesis
    by (simp add: withTimeout_no_reject validateSMTP_def validateSMTP_loop_no_reject)
qed

lemma validateDomain_no_reject: "validateDomain e dm \<noteq> Settles t (Inl x)"
  by (auto simp: validateDomain_def split: promise.splits sum.splits)

lemma validateMX_no_reject: "validateMX e dm \<noteq> Settles t (Inl x)"
  by (auto simp: validateMX_def Let_def split: promise.splits sum.splits option.splits)

lemma stage_settles:
  assumes "\<And>t x. p \<noteq> Settles t (Inl x)"
  shows "\<exists>t r. withTimeout p ms m = Settles t (Inr r)"
proof -
  obtain t y where s: "withTimeout p ms m = Settles t y" using withTimeout_settles by blast
  have "\<And>x. y \<noteq> Inl x" using withTimeout_no_reject [OF assms] s by blast
  then obtain r where "y = Inr r" by (cases y) auto
  with s show ?thesis by blast
qed

lemma smtp_stage_settles:
  assumes "withTimeout (validateMX e dm) ms m = Settles t (Inr mxResult)" and "passed mxResult"
  shows "\<exists>t3 sr. withTimeout (snd (validateSMTP v e email (records mxResult))) ms' m'
                    = Settles t3 (Inr sr)"
proof -
  obtain t3 y where s: "withTimeout (snd (validateSMTP v e email (records mxResult))) ms' m'
                          = Settles t3 y" using withTimeout_settles by blast
  have "\<And>x. y \<noteq> Inl x" using smtp_stage_no_reject [OF assms] s by blast
  then obtain sr where "y = Inr sr" by (cases y) auto
  with s show ?thesis by blast
qed

lemma run_syntax_failed:
  assumes "template_string email = Inr s" and "\<not> passed (validateSyntax email)"
  shows "validateEmail v e email =
           ([ValidateSyntax email],
            Settles 0 (Inr \<lparr>rep_email = email, isValid = False,
              checks = \<lparr>chk_syntax = validateSyntax email,
                        chk_domain = \<lparr>passed = False, message = [], records = None, response = None\<rparr>,
                        chk_mx = initial_mx, chk_smtp = initial_smtp,
                        chk_disposable = initial_true, chk_roleBased = initial_true\<rparr>,
              executionTime = 0, timestamp = date_iso e\<rparr>))"
  using assms
  by (simp add: validateEmail_def Let_def new_report_def initial_mx_def initial_smtp_def
        initial_true_def)

lemma run_domain_failed:
  assumes "passed (validateSyntax (JStr raw))" and "parseEmail raw = (lp, dm)"
    and "withTimeout (validateDomain e dm) 2000 ''Domain lookup timeout'' = Settles t1 (Inr dr)"
    and "\<not> passed dr"
  shows "validateEmail v e (JStr raw) =
           ([ValidateSyntax (JStr raw), ValidateDomain dm],
            Settles t1 (Inr \<lparr>rep_email = JStr raw, isValid = False,
              checks = \<lparr>chk_syntax = validateSyntax (JStr raw), chk_domain = dr,
                        chk_mx = initial_mx, chk_smtp = initial_smtp,
                        chk_disposable = initial_true, chk_roleBased = initial_true\<rparr>,
              executionTime = t1, timestamp = date_iso e\<rparr>))"
  using assms
  by (simp add: validateEmail_def Let_def parseEmail_value_def new_report_def initial_mx_def
        initial_smtp_def initial_true_def)

lemma run_mx_failed:
  assumes "passed (validateSyntax (JStr raw))" and "parseEmail raw = (lp, dm)"
    and "withTimeout (validateDomain e dm) 2000 ''Domain lookup timeout'' = Settles t1 (Inr dr)"
    and "passed dr"
    and "withTimeout (validateMX e dm) 2000 ''MX record lookup timeout'' = Settles t2 (Inr mr)"
    and "\<not> passed mr"
  shows "validateEmail v e (JStr raw) =
           ([ValidateSyntax (JStr raw), ValidateDomain dm, ValidateMX dm],
            Settles (t1 + t2) (Inr \<lparr>rep_email = JStr raw, isValid = False,
              checks = \<lparr>chk_syntax = validateSyntax (JStr raw), chk_domain = dr,
                        chk_mx = mr, chk_smtp = initial_smtp,
                        chk_disposable = initial_true, chk_roleBased = initial_true\<rparr>,
              executionTime = t1 + t2, timestamp = date_iso e\<rparr>))"
  using assms
  by (simp add: validateEmail_def Let_def parseEmail_value_def new_report_def
        initial_smtp_def initial_true_def)

lemma run_complete:
  assumes "passed (validateSyntax (JStr raw))" and "parseEmail raw = (lp, dm)"
    and "withTimeout (validateDomain e dm) 2000 ''Domain lookup timeout'' = Settles t1 (Inr dr)"
    and "passed dr"
    and "withTimeout (validateMX e dm) 2000 ''MX record lookup timeout'' = Settles t2 (Inr mr)"
    and "passed mr"
    and "withTimeout (snd (validateSMTP v e (JStr raw) (records mr))) (timeout v)
           ''SMTP validation timeout'' = Settles t3 (Inr sr)"
    and "checkDisposable v dm = Inr cd" and "checkRoleBased v lp = Inr crb"
  shows "validateEmail v e (JStr raw) =
           ([ValidateSyntax (JStr raw), ValidateDomain dm, ValidateMX dm,
             ValidateSMTP (JStr raw) (records mr), CheckDisposable dm, CheckRoleBased lp],
            Settles (t1 + t2 + t3) (Inr \<lparr>rep_email = JStr raw, isValid = passed sr,
              checks = \<lparr>chk_syntax = validateSyntax (JStr raw), chk_domain = dr,
                        chk_mx = mr, chk_smtp = sr,
                        chk_disposable = cd, chk_roleBased = crb\<rparr>,
              executionTime = t1 + t2 + t3, timestamp = date_iso e\<rparr>))"
  using assms
  by (simp add: validateEmail_def Let_def parseEmail_value_def new_report_def)

text \<open>
  C3. What \<open>validateEmail\<close> returns is determined by the first stage that fails. If the
  syntax check fails, the report is returned at time 0 and \<open>validateSyntax\<close> is the only
  method called. If the domain check fails, the report is returned when that check
  settles and \<open>validateDomain\<close> is the last call; if the mx check fails, \<open>validateMX\<close>
  is the last call. In these three cases every later check of the report is as it was
  initialised. If these three pass and the smtp check fails, \<open>checkDisposable\<close> and
  \<open>checkRoleBased\<close> are still called after \<open>validateSMTP\<close>, the report holds the results
  of all six checks, and \<open>isValid\<close> is false. The stages always have such outcomes:
  once the syntax check has passed, the domain and mx stages settle with a result and
  the two heuristics return one, and after a passed mx check so does the smtp stage.
\<close>

theorem failed_stage_short_circuits:
  "(template_string email = Inr s \<and> \<not> passed (validateSyntax email) \<longrightarrow>
      validateEmail v e email =
        ([ValidateSyntax email],
         Settles 0 (Inr \<lparr>rep_email = email, isValid = False,
           checks = \<lparr>chk_syntax = validateSyntax email,
                     chk_domain = \<lparr>passed = False, message = [], records = None, response = None\<rparr>,
                     chk_mx = initial_mx, chk_smtp = initial_smtp,
                     chk_disposable = initial_true, chk_roleBased = initial_true\<rparr>,
           executionTime = 0, timestamp = date_iso e\<rparr>))) \<and>
   (passed (validateSyntax (JStr raw)) \<and> parseEmail raw = (lp, dm) \<and>
    withTimeout (validateDomain e dm) 2000 ''Domain lookup timeout'' = Settles t1 (Inr dr) \<and>
    \<not> passed dr \<longrightarrow>
      validateEmail v e (JStr raw) =
        ([ValidateSyntax (JStr raw), ValidateDomain dm],
         Settles t1 (Inr \<lparr>rep_email = JStr raw, isValid = False,
           checks = \<lparr>chk_syntax = validateSyntax (JStr raw), chk_domain = dr,
                     chk_mx = initial_mx, chk_smtp = initial_smtp,
                     chk_disposable = initial_true, chk_roleBased = initial_true\<rparr>,
           executionTime = t1, timestamp = date_iso e\<rparr>))) \<and>
   (passed (validateSyntax (JStr raw)) \<and> parseEmail raw = (lp, dm) \<and>
    withTimeout (validateDomain e dm) 2000 ''Domain lookup timeout'' = Settles t1 (Inr dr) \<and>
    passed dr \<and>
    withTimeout (validateMX e dm) 2000 ''MX record lookup timeout'' = Settles t2 (Inr mr) \<and>
    \<not> passed mr \<longrightarrow>
      validateEmail v e (JStr raw) =
        ([ValidateSyntax (JStr raw), ValidateDomain dm, ValidateMX dm],
         Settles (t1 + t2) (Inr \<lparr>rep_email = JStr raw, isValid = False,
           checks = \<lparr>chk_syntax = validateSyntax (JStr raw), chk_domain = dr,
                     chk_mx = mr, chk_smtp = initial_smtp,
                     chk_disposable = initial_true, chk_roleBased = initial_true\<rparr>,
           executionTime = t1 + t2, timestamp = date_iso e\<rparr>))) \<and>
   (passed (validateSyntax (JStr raw)) \<and> parseEmail raw = (lp, dm) \<and>
    withTimeout (validateDomain e dm) 2000 ''Domain lookup timeout'' = Settles t1 (Inr dr) \<and>
    passed dr \<and>
    withTimeout (validateMX e dm) 2000 ''MX record lookup timeout'' = Settles t2 (Inr mr) \<and>
    passed mr \<and>
    withTimeout (snd (validateSMTP v e (JStr raw) (records mr))) (timeout v)
      ''SMTP validation timeout'' = Settles t3 (Inr sr) \<and>
    \<not> passed sr \<and>
    checkDisposable v dm = Inr cd \<and> checkRoleBased v lp = Inr crb \<longrightarrow>
      validateEmail v e (JStr raw) =
        ([ValidateSyntax (JStr raw), ValidateDomain dm, ValidateMX dm,
          ValidateSMTP (JStr raw) (records mr), CheckDisposable dm, CheckRoleBased lp],
         Settles (t1 + t2 + t3) (Inr \<lparr>rep_email = JStr raw, isValid = False,
           checks = \<lparr>chk_syntax = validateSyntax (JStr raw), chk_domain = dr,
                     chk_mx = mr, chk_smtp = sr,
                     chk_disposable = cd, chk_roleBased = crb\<rparr>,
           executionTime = t1 + t2 + t3, timestamp = date_iso e\<rparr>))) \<and>
   (passed (validateSyntax (JStr raw)) \<and> parseEmail raw = (lp, dm) \<longrightarrow>
      (\<exists>t1 dr. withTimeout (validateDomain e dm) 2000 ''Domain lookup timeout''
                  = Settles t1 (Inr dr)) \<and>
      (\<exists>t2 mr. withTimeout (validateMX e dm) 2000 ''MX record lookup timeout''
                  = Settles t2 (Inr mr)) \<and>
      (\<exists>cd. checkDisposable v dm = Inr cd) \<and> (\<exists>crb. checkRoleBased v lp = Inr crb)) \<and>
   (withTimeout (validateMX e dm) 2000 ''MX record lookup timeout'' = Settles t2 (Inr mr) \<and>
    passed mr \<longrightarrow>
      (\<exists>t3 sr. withTimeout (snd (validateSMTP v e (JStr raw) (records mr))) (timeout v)
                  ''SMTP validation timeout'' = Settles t3 (Inr sr)))"
proof (intro conjI impI)
  assume "template_string email = Inr s \<and> \<not> passed (validateSyntax email)"
  then show "validateEmail v e email =
        ([ValidateSyntax email],
         Settles 0 (Inr \<lparr>rep_email = email, isValid = False,
           checks = \<lparr>chk_syntax = validateSyntax email,
                     chk_domain = \<lparr>passed = False, message = [], records = None, response = None\<rparr>,
                     chk_mx = initial_mx, chk_smtp = initial_smtp,
                     chk_disposable = initial_true, chk_roleBased = initial_true\<rparr>,
           executionTime = 0, timestamp = date_iso e\<rparr>))"
    using run_syntax_failed by blast
next
  assume "passed (validateSyntax (JStr raw)) \<and> parseEmail raw = (lp, dm) \<and>
    withTimeout (validateDomain e dm) 2000 ''Domain lookup timeout'' = Settles t1 (Inr dr) \<and>
    \<not> passed dr"
  then show "validateEmail v e (JStr raw) =
        ([ValidateSyntax (JStr raw), ValidateDomain dm],
         Settles t1 (Inr \<lparr>rep_email = JStr raw, isValid = False,
           checks = \<lparr>chk_syntax = validateSyntax (JStr raw), chk_domain = dr,
                     chk_mx = initial_mx, chk_smtp = initial_smtp,
                     chk_disposable = initial_true, chk_roleBased = initial_true\<rparr>,
           executionTime = t1, timestamp = date_iso e\<rparr>))"
    using run_domain_failed by blast
next
  assume "passed (validateSyntax (JStr raw)) \<and> parseEmail raw = (lp, dm) \<and>
    withTimeout (validateDomain e dm) 2000 ''Domain lookup timeout'' = Settles t1 (Inr dr) \<and>
    passed dr \<and>
    withTimeout (validateMX e dm) 2000 ''MX record lookup timeout'' = Settles t2 (Inr mr) \<and>
    \<not> passed mr"
  then show "validateEmail v e (JStr raw) =
        ([ValidateSyntax (JStr raw), ValidateDomain dm, ValidateMX dm],
         Settles (t1 + t2) (Inr \<lparr>rep_email = JStr raw, isValid = False,
           checks = \<lparr>chk_syntax = validateSyntax (JStr raw), chk_domain = dr,
                     chk_mx = mr, chk_smtp = initial_smtp,
                     chk_disposable = initial_true, chk_roleBased = initial_true\<rparr>,
           executionTime = t1 + t2, timestamp = date_iso e\<rparr>))"
    using run_mx_failed by blast
next
  assume h: "passed (validateSyntax (JStr raw)) \<and> parseEmail raw = (lp, dm) \<and>
    withTimeout (validateDomain e dm) 2000 ''Domain lookup timeout'' = Settles t1 (Inr dr) \<and>
    passed dr \<and>
    withTimeout (validateMX e dm) 2000 ''MX record lookup timeout'' = Settles t2 (Inr mr) \<and>
    passed mr \<and>
    withTimeout (snd (validateSMTP v e (JStr raw) (records mr))) (timeout v)
      ''SMTP validation timeout'' = Settles t3 (Inr sr) \<and>
    \<not> passed sr \<and>
    checkDisposable v dm = Inr cd \<and> checkRoleBased v lp = Inr crb"
  then have "validateEmail v e (JStr raw) =
        ([ValidateSyntax (JStr raw), ValidateDomain dm, ValidateMX dm,
          ValidateSMTP (JStr raw) (records mr), CheckDisposable dm, CheckRoleBased lp],
         Settles (t1 + t2 + t3) (Inr \<lparr>rep_email = JStr raw, isValid = passed sr,
           checks = \<lparr>chk_syntax = validateSyntax (JStr raw), chk_domain = dr,
                     chk_mx = mr, chk_smtp = sr,
                     chk_disposable = cd, chk_roleBased = crb\<rparr>,
           executionTime = t1 + t2 + t3, timestamp = date_iso e\<rparr>))"
    using run_complete by blast
  with h show "validateEmail v e (JStr raw) =
        ([ValidateSyntax (JStr raw), ValidateDomain dm, ValidateMX dm,
          ValidateSMTP (JStr raw) (records mr), CheckDisposable dm, CheckRoleBased lp],
         Settles (t1 + t2 + t3) (Inr \<lparr>rep_email = JStr raw, isValid = False,
           checks = \<lparr>chk_syntax = validateSyntax (JStr raw), chk_domain = dr,
                     chk_mx = mr, chk_smtp = sr,
                     chk_disposable = cd, chk_roleBased = crb\<rparr>,
           executionTime = t1 + t2 + t3, timestamp = date_iso e\<rparr>))"
    by simp
next
  assume "passed (validateSyntax (JStr raw)) \<and> parseEmail raw = (lp, dm)"
  show "\<exists>t1 dr. withTimeout (validateDomain e dm) 2000 ''Domain lookup timeout''
                  = Settles t1 (Inr dr)"
    using stage_settles [of "validateDomain e dm"] validateDomain_no_reject by blast
next
  assume "passed (validateSyntax (JStr raw)) \<and> parseEmail raw = (lp, dm)"
  show "\<exists>t2 mr. withTimeout (validateMX e dm) 2000 ''MX record lookup timeout''
                  = Settles t2 (Inr mr)"
    using stage_settles [of "validateMX e dm"] validateMX_no_reject by blast
next
  assume h: "passed (validateSyntax (JStr raw)) \<and> parseEmail raw = (lp, dm)"
  then obtain lp' dm' where "parseEmail_value (JStr raw) = Inr (Some lp', Some dm')"
    using syntax_passed_parse by blast
  with h have "dm = Some dm'" by (simp add: parseEmail_value_def)
  then show "\<exists>cd. checkDisposable v dm = Inr cd" using checkDisposable_Some by blast
next
  assume h: "passed (validateSyntax (JStr raw)) \<and> parseEmail raw = (lp, dm)"
  then obtain lp' dm' where "parseEmail_value (JStr raw) = Inr (Some lp', Some dm')"
    using syntax_passed_parse by blast
  with h have "lp = Some lp'" by (simp add: parseEmail_value_def)
  then show "\<exists>crb. checkRoleBased v lp = Inr crb" using checkRoleBased_Some by blast
next
  assume "withTimeout (validateMX e dm) 2000 ''MX record lookup timeout'' = Settles t2 (Inr mr) \<and>
    passed mr"
  then show "\<exists>t3 sr. withTimeout (snd (validateSMTP v e (JStr raw) (records mr))) (timeout v)
                  ''SMTP validation timeout'' = Settles t3 (Inr sr)"
    using smtp_stage_settles by blast
qed

lemma stage_outcomes:
  "template_string (JStr ''a@b@c.org'') = Inr ''a@b@c.org''"
  "validateSyntax (JStr ''a@b@c.org'') = plain_result False ''Email must contain exactly one @ symbol''"
  "validateSyntax (JStr ''user@nonexistent-domain-example-zz.test'') = plain_result True ''Email syntax is valid''"
  "parseEmail ''user@nonexistent-domain-example-zz.test'' = (Some ''user'', Some ''nonexistent-domain-example-zz.test'')"
  "withTimeout (validateDomain dns_error_env (Some ''nonexistent-domain-example-zz.test'')) 2000
     ''Domain lookup timeout'' = Settles 12 (Inr (plain_result False ''Domain lookup failed: ENOTFOUND''))"
  "validateSyntax (JStr ''user@example.org'') = plain_result True ''Email syntax is valid''"
  "parseEmail ''user@example.org'' = (Some ''user'', Some ''example.org'')"
  "withTimeout (validateDomain mx_error_env (Some ''example.org'')) 2000
     ''Domain lookup timeout'' = Settles 10 (Inr (plain_result True ''Domain exists and is resolvable''))"
  "withTimeout (validateMX mx_error_env (Some ''example.org'')) 2000
     ''MX record lookup timeout'' = Settles 7 (Inr \<lparr>passed = False, message = ''MX record lookup failed: ENOTFOUND'', records = Some [], response = None\<rparr>)"
  "validateSyntax (JStr ''admin@mailinator.com'') = plain_result True ''Email syntax is valid''"
  "parseEmail ''admin@mailinator.com'' = (Some ''admin'', Some ''mailinator.com'')"
  "withTimeout (validateDomain (example_env (\<lambda>n. ''550 no such user'')) (Some ''mailinator.com'')) 2000
     ''Domain lookup timeout'' = Settles 10 (Inr (plain_result True ''Domain exists and is resolvable''))"
  "withTimeout (validateMX (example_env (\<lambda>n. ''550 no such user'')) (Some ''mailinator.com'')) 2000
     ''MX record lookup timeout'' = Settles 10 (Inr found_two)"
  "withTimeout (snd (validateSMTP example_validator (example_env (\<lambda>n. ''550 no such user'')) (JStr ''admin@mailinator.com'') (records found_two)))
      (timeout example_validator) ''SMTP validation timeout'' = Settles 1180 (Inr all_failed)"
  "checkDisposable example_validator (Some ''mailinator.com'')
     = Inr (plain_result False ''Domain is a known disposable email provider'')"
  "checkRoleBased example_validator (Some ''admin'')
     = Inr (plain_result False ''Email appears to be role-based (non-personal)'')"
  by code_simp+

lemma stage_flags:
  "\<not> passed (plain_result False m)" "passed (plain_result True m)" "passed found_two"
  "\<not> passed all_failed" "\<not> passed \<lparr>passed = False, message = ''MX record lookup failed: ENOTFOUND'', records = Some [], response = None\<rparr>"
  by (simp_all add: plain_result_def found_two_def all_failed_def)

theorem failed_stage_short_circuits_witness:
  "validateEmail example_validator (example_env (\<lambda>n. ''250 ok'')) (JStr ''a@b@c.org'') =
        ([ValidateSyntax (JStr ''a@b@c.org'')],
         Settles 0 (Inr \<lparr>rep_email = JStr ''a@b@c.org'', isValid = False,
           checks = \<lparr>chk_syntax = plain_result False ''Email must contain exactly one @ symbol'', chk_domain = \<lparr>passed = False, message = [], records = None, response = None\<rparr>,
                     chk_mx = initial_mx, chk_smtp = initial_smtp,
                     chk_disposable = initial_true, chk_roleBased = initial_true\<rparr>,
           executionTime = 0, timestamp = date_iso (example_env (\<lambda>n. ''250 ok''))\<rparr>)) \<and>
   validateEmail example_validator dns_error_env (JStr ''user@nonexistent-domain-example-zz.test'') =
        ([ValidateSyntax (JStr ''user@nonexistent-domain-example-zz.test''), ValidateDomain (Some ''nonexistent-domain-example-zz.test'')],
         Settles 12 (Inr \<lparr>rep_email = JStr ''user@nonexistent-domain-example-zz.test'', isValid = False,
           checks = \<lparr>chk_syntax = plain_result True ''Email syntax is valid'', chk_domain = plain_result False ''Domain lookup failed: ENOTFOUND'',
                     chk_mx = initial_mx, chk_smtp = initial_smtp,
                     chk_disposable = initial_true, chk_roleBased = initial_true\<rparr>,
           executionTime = 12, timestamp = date_iso dns_error_env\<rparr>)) \<and>
   validateEmail example_validator mx_error_env (JStr ''user@example.org'') =
        ([ValidateSyntax (JStr ''user@example.org''), ValidateDomain (Some ''example.org''), ValidateMX (Some ''example.org'')],
         Settles (10 + 7) (Inr \<lparr>rep_email = JStr ''user@example.org'', isValid = False,
           checks = \<lparr>chk_syntax = plain_result True ''Email syntax is valid'', chk_domain = plain_result True ''Domain exists and is resolvable'',
                     chk_mx = \<lparr>passed = False, message = ''MX record lookup failed: ENOTFOUND'', records = Some [], response = None\<rparr>, chk_smtp = initial_smtp,
                     chk_disposable = initial_true, chk_roleBased = initial_true\<rparr>,
           executionTime = 10 + 7, timestamp = date_iso mx_error_env\<rparr>)) \<and>
   withTimeout (snd (validateSMTP example_validator (example_env (\<lambda>n. ''550 no such user'')) (JStr ''admin@mailinator.com'') (records found_two)))
      (timeout example_validator) ''SMTP validation timeout'' = Settles 1180 (Inr all_failed) \<and>
   \<not> passed all_failed \<and>
   validateEmail example_validator (example_env (\<lambda>n. ''550 no such user'')) (JStr ''admin@mailinator.com'') =
        ([ValidateSyntax (JStr ''admin@mailinator.com''), ValidateDomain (Some ''mailinator.com''), ValidateMX (Some ''mailinator.com''),
          ValidateSMTP (JStr ''admin@mailinator.com'') (records found_two), CheckDisposable (Some ''mailinator.com''),
          CheckRoleBased (Some ''admin'')],
         Settles (10 + 10 + 1180) (Inr \<lparr>rep_email = JStr ''admin@mailinator.com'', isValid = False,
           checks = \<lparr>chk_syntax = plain_result True ''Email syntax is valid'', chk_domain = plain_result True ''Domain exists and is resolvable'',
                     chk_mx = found_two, chk_smtp = all_failed,
                     chk_disposable = plain_result False ''Domain is a known disposable email provider'', chk_roleBased = plain_result False ''Email appears to be role-based (non-personal)''\<rparr>,
           executionTime = 10 + 10 + 1180, timestamp = date_iso (example_env (\<lambda>n. ''550 no such user''))\<rparr>)) \<and>
   (\<exists>t1 dr. withTimeout (validateDomain (example_env (\<lambda>n. ''550 no such user'')) (Some ''mailinator.com''))
                2000 ''Domain lookup timeout'' = Settles t1 (Inr dr)) \<and>
   (\<exists>t2 mr. withTimeout (validateMX (example_env (\<lambda>n. ''550 no such user'')) (Some ''mailinator.com''))
                2000 ''MX record lookup timeout'' = Settles t2 (Inr mr)) \<and>
   (\<exists>cd. checkDisposable example_validator (Some ''mailinator.com'') = Inr cd) \<and>
   (\<exists>crb. checkRoleBased example_validator (Some ''admin'') = Inr crb) \<and>
   (\<exists>t3 sr. withTimeout (snd (validateSMTP example_validator (example_env (\<lambda>n. ''550 no such user''))
                                  (JStr ''admin@mailinator.com'') (records found_two)))
                (timeout example_validator) ''SMTP validation timeout'' = Settles t3 (Inr sr))"
proof -
  have h1: "template_string (JStr ''a@b@c.org'') = Inr ''a@b@c.org'' \<and> \<not> passed (validateSyntax (JStr ''a@b@c.org''))"
    by (simp add: stage_outcomes stage_flags)
  have h2: "passed (validateSyntax (JStr ''user@nonexistent-domain-example-zz.test'')) \<and>
    parseEmail ''user@nonexistent-domain-example-zz.test'' = (Some ''user'', Some ''nonexistent-domain-example-zz.test'') \<and>
    withTimeout (validateDomain dns_error_env (Some ''nonexistent-domain-example-zz.test'')) 2000
      ''Domain lookup timeout'' = Settles 12 (Inr (plain_result False ''Domain lookup failed: ENOTFOUND'')) \<and>
    \<not> passed (plain_result False ''Domain lookup failed: ENOTFOUND'')"
    by (simp add: stage_outcomes stage_flags)
  have h3: "passed (validateSyntax (JStr ''user@example.org'')) \<and>
    parseEmail ''user@example.org'' = (Some ''user'', Some ''example.org'') \<and>
    withTimeout (validateDomain mx_error_env (Some ''example.org'')) 2000
      ''Domain lookup timeout'' = Settles 10 (Inr (plain_result True ''Domain exists and is resolvable'')) \<and>
    passed (plain_result True ''Domain exists and is resolvable'') \<and>
    withTimeout (validateMX mx_error_env (Some ''example.org'')) 2000
      ''MX record lookup timeout'' = Settles 7 (Inr \<lparr>passed = False, message = ''MX record lookup failed: ENOTFOUND'', records = Some [], response = None\<rparr>) \<and>
    \<not> passed \<lparr>passed = False, message = ''MX record lookup failed: ENOTFOUND'', records = Some [], response = None\<rparr>"
    by (simp add: stage_outcomes stage_flags)
  have h4: "passed (validateSyntax (JStr ''admin@mailinator.com'')) \<and>
    parseEmail ''admin@mailinator.com'' = (Some ''admin'', Some ''mailinator.com'') \<and>
    withTimeout (validateDomain (example_env (\<lambda>n. ''550 no such user'')) (Some ''mailinator.com'')) 2000
      ''Domain lookup timeout'' = Settles 10 (Inr (plain_result True ''Domain exists and is resolvable'')) \<and>
    passed (plain_result True ''Domain exists and is resolvable'') \<and>
    withTimeout (validateMX (example_env (\<lambda>n. ''550 no such user'')) (Some ''mailinator.com'')) 2000
      ''MX record lookup timeout'' = Settles 10 (Inr found_two) \<and>
    passed found_two \<and>
    withTimeout (snd (validateSMTP example_validator (example_env (\<lambda>n. ''550 no such user'')) (JStr ''admin@mailinator.com'') (records found_two)))
      (timeout example_validator) ''SMTP validation timeout'' = Settles 1180 (Inr all_failed) \<and>
    \<not> passed all_failed \<and>
    checkDisposable example_validator (Some ''mailinator.com'')
      = Inr (plain_result False ''Domain is a known disposable email provider'') \<and>
    checkRoleBased example_validator (Some ''admin'')
      = Inr (plain_result False ''Email appears to be role-based (non-personal)'')"
    by (simp add: stage_outcomes stage_flags)
  note r1 = failed_stage_short_circuits [where email = "JStr ''a@b@c.org''" and s = "''a@b@c.org''"
              and v = example_validator and e = "(example_env (\<lambda>n. ''250 ok''))",
              THEN conjunct1, THEN mp, OF h1, unfolded stage_outcomes(2)]
  note r2 = failed_stage_short_circuits [where raw = "''user@nonexistent-domain-example-zz.test''" and v = example_validator
              and e = dns_error_env,
              THEN conjunct2, THEN conjunct1, THEN mp, OF h2, unfolded stage_outcomes(3)]
  note r3 = failed_stage_short_circuits [where raw = "''user@example.org''" and v = example_validator
              and e = mx_error_env,
              THEN conjunct2, THEN conjunct2, THEN conjunct1, THEN mp, OF h3,
              unfolded stage_outcomes(6)]
  note r4 = failed_stage_short_circuits [where raw = "''admin@mailinator.com''" and v = example_validator
              and e = "(example_env (\<lambda>n. ''550 no such user''))",
              THEN conjunct2, THEN conjunct2, THEN conjunct2, THEN conjunct1, THEN mp, OF h4,
              unfolded stage_outcomes(10)]
  have h5: "passed (validateSyntax (JStr ''admin@mailinator.com'')) \<and>
    parseEmail ''admin@mailinator.com'' = (Some ''admin'', Some ''mailinator.com'')"
    by (simp add: stage_outcomes stage_flags)
  have h6: "withTimeout (validateMX (example_env (\<lambda>n. ''550 no such user'')) (Some ''mailinator.com'')) 2000
      ''MX record lookup timeout'' = Settles 10 (Inr found_two) \<and> passed found_two"
    by (simp add: stage_outcomes stage_flags)
  note r5 = failed_stage_short_circuits [where raw = "''admin@mailinator.com''" and v = example_validator
              and e = "(example_env (\<lambda>n. ''550 no such user''))"
              and lp = "Some ''admin''" and dm = "Some ''mailinator.com''",
              THEN conjunct2, THEN conjunct2, THEN conjunct2, THEN conjunct2, THEN conjunct1,
              THEN mp, OF h5]
  note r6 = failed_stage_short_circuits [where raw = "''admin@mailinator.com''" and v = example_validator
              and e = "(example_env (\<lambda>n. ''550 no such user''))"
              and dm = "Some ''mailinator.com''" and ?t2.0 = 10 and mr = found_two,
              THEN conjunct2, THEN conjunct2, THEN conjunct2, THEN conjunct2, THEN conjunct2,
              THEN mp, OF h6]
  show ?thesis
    by (intro conjI)
       (rule r1 r2 r3 r4 stage_outcomes(14) stage_flags(4) r5 [THEN conjunct1]
             r5 [THEN conjunct2, THEN conjunct1] r5 [THEN conjunct2, THEN conjunct2, THEN conjunct1]
             r5 [THEN conjunct2, THEN conjunct2, THEN conjunct2] r6)+
qed

section \<open>Trimming and parsing\<close>



















section \<open>The end of the SMTP session\<close>

lemma step3_quit_dropped:
  assumes "step st = 3"
  shows "destroyed (sock (on_data v e email data st)) \<and>
         wire (sock (on_data v e email data st)) = wire (sock st) \<and>
         attempted (sock (on_data v e email data st)) = attempted (sock st) @ [''QUIT'' @ crlf]"
  using assms
  by (simp add: on_data_def Let_def resolve_def cleanup_def session_write_def
        socket_write_def socket_destroy_def)

text \<open>
  C7, evaluated where the code departs from it. Against a server that answers 220,
  250, 250 and then 250 to \<open>RCPT TO\<close>, the session resolves as accepted with the socket
  destroyed, and \<open>QUIT\<close> has been written; but \<open>cleanup\<close> destroyed the socket before
  that write, so \<open>QUIT\<close> is not among the data that reached the connection.
  \<open>step3_quit_dropped\<close> above shows the same for every reply to \<open>RCPT TO\<close>.
\<close>

theorem quit_is_written_after_destroy:
  "fst (run_session example_validator (example_env (\<lambda>n. ''250 ok'')) (JStr ''user@example.org'') 0
          (example_script ''250 ok'') new_session)
     = Settles 45 (Inr (smtp_result True ''Email address accepted by SMTP server''
                          ''220 ready\<newline>250 hello\<newline>250 sender ok\<newline>250 ok'')) \<and>
   sock (snd (run_session example_validator (example_env (\<lambda>n. ''250 ok'')) (JStr ''user@example.org'') 0
          (example_script ''250 ok'') new_session))
     = \<lparr>destroyed = True,
        attempted = [''HELO client.example.net'' @ crlf, ''MAIL FROM:<test@example.com>'' @ crlf,
                     ''RCPT TO:<user@example.org>'' @ crlf, ''QUIT'' @ crlf],
        wire = [''HELO client.example.net'' @ crlf, ''MAIL FROM:<test@example.com>'' @ crlf,
                ''RCPT TO:<user@example.org>'' @ crlf]\<rparr> \<and>
   ''QUIT'' @ crlf \<notin> set (wire (sock (snd (run_session example_validator (example_env (\<lambda>n. ''250 ok''))
          (JStr ''user@example.org'') 0 (example_script ''250 ok'') new_session))))"
  by code_simp

section \<open>The retry loop\<close>


























end
